theory Spec2Isabelle
  imports Complex_Main
begin

section \<open>Values shared by the modules\<close>

text \<open>
  Values decoded from JSON text, as Python's \<^verbatim>\<open>json\<close> module hands them to the
  program: \<^verbatim>\<open>None\<close>, \<^verbatim>\<open>bool\<close>, \<^verbatim>\<open>int\<close>, \<^verbatim>\<open>float\<close>, \<^verbatim>\<open>str\<close>, \<^verbatim>\<open>list\<close> and \<^verbatim>\<open>dict\<close>.
  A \<^verbatim>\<open>dict\<close> keeps its insertion order, so it is an association list; a decoded
  dictionary has no repeated key, and a look-up takes the first binding.
  Floats only ever carry costs and temperatures here; they are rationals in the model.
\<close>

datatype json =
    JNull
  | JBool bool
  | JInt int
  | JFloat rat
  | JStr string
  | JArr "json list"
  | JObj "(string \<times> json) list"

text \<open>
  The exceptions the program can meet. The ones raised by the interpreter carry what
  their message is built from; \<open>LibraryError\<close> is any exception raised inside a
  library the program calls (the chat-model client, the file system, dotenv).
\<close>

datatype exn =
    KeyError json
  | TypeError
  | NameError string
  | AttributeError
  | JSONDecodeError
  | PyException string
  | LibraryError string

text \<open>\<^verbatim>\<open>os.environ\<close>: the process environment read by \<^verbatim>\<open>os.getenv\<close>.\<close>

type_synonym environ = "string \<rightharpoonup> string"

definition getenv :: "environ \<Rightarrow> string \<Rightarrow> string option" where
  "getenv env k = env k"

text \<open>Python's truth value of a decoded JSON value (\<^verbatim>\<open>x or d\<close>, \<^verbatim>\<open>if x\<close>, \<^verbatim>\<open>not x\<close>).\<close>

fun truthy :: "json \<Rightarrow> bool" where
  "truthy JNull = False"
| "truthy (JBool b) = b"
| "truthy (JInt i) = (i \<noteq> 0)"
| "truthy (JFloat r) = (r \<noteq> 0)"
| "truthy (JStr s) = (s \<noteq> [])"
| "truthy (JArr xs) = (xs \<noteq> [])"
| "truthy (JObj kvs) = (kvs \<noteq> [])"

text \<open>\<^verbatim>\<open>d.get(k, default)\<close> on a dictionary.\<close>

definition dict_get :: "(string \<times> json) list \<Rightarrow> string \<Rightarrow> json \<Rightarrow> json" where
  "dict_get d k dflt = (case map_of d k of None \<Rightarrow> dflt | Some v \<Rightarrow> v)"

text \<open>
  \<^verbatim>\<open>x[k]\<close> with a string key: a dictionary yields the value or raises \<^verbatim>\<open>KeyError\<close>,
  every other decoded value raises \<^verbatim>\<open>TypeError\<close>.
\<close>

fun subscript :: "json \<Rightarrow> string \<Rightarrow> exn + json" where
  "subscript (JObj d) k = (case map_of d k of None \<Rightarrow> Inl (KeyError (JStr k)) | Some v \<Rightarrow> Inr v)"
| "subscript _ k = Inl TypeError"

text \<open>\<^verbatim>\<open>d[k] = v\<close>: an existing key keeps its place, a new key goes last.\<close>

fun dict_set :: "(string \<times> json) list \<Rightarrow> string \<Rightarrow> json \<Rightarrow> (string \<times> json) list" where
  "dict_set [] k v = [(k, v)]"
| "dict_set ((k', v') # d) k v = (if k' = k then (k, v) # d else (k', v') # dict_set d k v)"


section \<open>LLMProvider.py\<close>

datatype LLMProviderType = OPENAI | GITHUB_COPILOT

text \<open>The value of each member of the enumeration.\<close>

fun LLMProviderType_value :: "LLMProviderType \<Rightarrow> string" where
  "LLMProviderType_value OPENAI = ''openai''"
| "LLMProviderType_value GITHUB_COPILOT = ''github_copilot''"

text \<open>
  \<^verbatim>\<open>LLMProviderType(x)\<close>, the look-up of a member by value: it raises \<^verbatim>\<open>ValueError\<close>
  (here \<open>None\<close>) for every value that is not the value of a member, whatever its type.
\<close>

fun LLMProviderType_of :: "json \<Rightarrow> LLMProviderType option" where
  "LLMProviderType_of (JStr s) =
     (if s = ''openai'' then Some OPENAI
      else if s = ''github_copilot'' then Some GITHUB_COPILOT
      else None)"
| "LLMProviderType_of _ = None"

text \<open>
  The two provider classes; each object holds \<^verbatim>\<open>model_name\<close> and \<^verbatim>\<open>temperature\<close>
  as its constructor received them.
\<close>

datatype LLMProvider =
    OpenAIProvider json json
  | GitHubCopilotProvider json json

fun provider_kind :: "LLMProvider \<Rightarrow> LLMProviderType" where
  "provider_kind (OpenAIProvider m t) = OPENAI"
| "provider_kind (GitHubCopilotProvider m t) = GITHUB_COPILOT"

definition DEFAULT_MODEL :: string where
  "DEFAULT_MODEL = ''gpt-4o''"

definition AVAILABLE_MODELS :: "string list" where
  "AVAILABLE_MODELS =
     [''gpt-4o'', ''gpt-4'', ''gpt-3.5-turbo'', ''o1-preview'', ''o1-mini'', ''claude-3.5-sonnet'']"

fun get_api_key_env_var :: "LLMProvider \<Rightarrow> string" where
  "get_api_key_env_var (OpenAIProvider m t) = ''OPENAI_API_KEY''"
| "get_api_key_env_var (GitHubCopilotProvider m t) = ''GITHUB_COPILOT_TOKEN''"

fun validate_credentials :: "environ \<Rightarrow> LLMProvider \<Rightarrow> bool" where
  "validate_credentials env (OpenAIProvider m t) = (getenv env ''OPENAI_API_KEY'' \<noteq> None)"
| "validate_credentials env (GitHubCopilotProvider m t) =
     (getenv env ''GITHUB_COPILOT_TOKEN'' \<noteq> None)"

text \<open>
  The keyword arguments a provider passes to the \<^verbatim>\<open>ChatOpenAI\<close> constructor of the
  chat-model library; an argument that is not passed is \<open>None\<close> (and \<open>[]\<close> for
  \<^verbatim>\<open>model_kwargs\<close>). The chat-model handle is identified with these arguments.
\<close>

record ChatOpenAI =
  arg_temperature :: json
  arg_model_name :: json
  openai_api_key :: "string option option"
  openai_api_base :: "string option"
  model_kwargs :: "(string \<times> (string \<times> string) list) list"

fun get_llm :: "environ \<Rightarrow> LLMProvider \<Rightarrow> ChatOpenAI" where
  "get_llm env (OpenAIProvider m t) =
     \<lparr>arg_temperature = t, arg_model_name = m, openai_api_key = None,
      openai_api_base = None, model_kwargs = []\<rparr>"
| "get_llm env (GitHubCopilotProvider m t) =
     \<lparr>arg_temperature = t, arg_model_name = m,
      openai_api_key = Some (getenv env (get_api_key_env_var (GitHubCopilotProvider m t))),
      openai_api_base = Some ''https://api.githubcopilot.com'',
      model_kwargs = [(''headers'', [(''Editor-Version'', ''vscode/1.95.0''),
                                      (''Editor-Plugin-Version'', ''copilot-chat/0.22.4'')])]\<rparr>"

text \<open>
  \<^verbatim>\<open>LLMProviderFactory.create_provider\<close>. \<open>None\<close> is the omitted \<^verbatim>\<open>model_name\<close>;
  \<^verbatim>\<open>model_name or default\<close> also replaces every falsy value. The source's last branch
  raises \<^verbatim>\<open>ValueError\<close> for a provider type that is neither member; the enumeration has
  no such member, so the branch has no case here.
\<close>

definition py_or :: "json \<Rightarrow> json \<Rightarrow> json" where
  "py_or x d = (if truthy x then x else d)"

fun create_provider :: "LLMProviderType \<Rightarrow> json option \<Rightarrow> json \<Rightarrow> LLMProvider" where
  "create_provider OPENAI mn t =
     OpenAIProvider (py_or (case mn of None \<Rightarrow> JNull | Some m \<Rightarrow> m) (JStr ''gpt-3.5-turbo'')) t"
| "create_provider GITHUB_COPILOT mn t =
     GitHubCopilotProvider (py_or (case mn of None \<Rightarrow> JNull | Some m \<Rightarrow> m) (JStr DEFAULT_MODEL)) t"

fun get_available_models :: "LLMProviderType \<Rightarrow> string list" where
  "get_available_models OPENAI =
     [''gpt-4'', ''gpt-4-turbo-preview'', ''gpt-3.5-turbo'', ''gpt-3.5-turbo-16k'']"
| "get_available_models GITHUB_COPILOT = AVAILABLE_MODELS"

text \<open>
  The reading of the specification's words "set and non-empty" for an environment
  variable, to compare with what \<open>validate_credentials\<close> computes.
\<close>

definition set_and_non_empty :: "environ \<Rightarrow> string \<Rightarrow> bool" where
  "set_and_non_empty env k = (case env k of None \<Rightarrow> False | Some v \<Rightarrow> v \<noteq> [])"



section \<open>Collaborators outside the source files\<close>

text \<open>
  One turn of a conversation held by the memory buffer of the chat library: what the
  human asked (the value passed as \<^verbatim>\<open>input\<close>) or what the model replied.
\<close>

datatype turn = Human json | AI string

text \<open>
  What \<^verbatim>\<open>ConversationChain.predict\<close> sends out: the chat-model handle, the turns
  held by the memory at that moment, and the new input.
\<close>

record request =
  req_llm :: ChatOpenAI
  req_history :: "turn list"
  req_input :: json

text \<open>
  An object of class \<^verbatim>\<open>ChatAIWithoutDocuments\<close>: the handle and the memory buffer;
  the conversation chain is built from these two and holds nothing else.
\<close>

record ChatAIWithoutDocuments =
  llm :: ChatOpenAI
  memory :: "turn list"

text \<open>
  Everything the source files call and do not define. The libraries: \<^verbatim>\<open>json.loads\<close>
  (\<open>Inl JSONDecodeError\<close> for text that is not JSON), \<^verbatim>\<open>json.dumps\<close>, \<^verbatim>\<open>str\<close> on a
  decoded value and on an exception, the constructors of the chat library (\<open>Some e\<close>
  when one of them raises \<open>e\<close>), and the model call behind \<^verbatim>\<open>predict\<close>, which gives
  the reply or an exception, and the cost the callback handler adds to its total
  for that call. The classes of this repository that are not among the source files:
  \<^verbatim>\<open>ChatInterface\<close>, whose \<^verbatim>\<open>explain_topic\<close> and \<^verbatim>\<open>generate_cards\<close> the class
  \<^verbatim>\<open>ChatAIWithoutDocuments\<close> inherits, and \<^verbatim>\<open>ChatAIWithDocuments\<close>, whose objects
  are values of the type \<open>'d\<close>. A method gives its outcome, the object after the call
  and the cost added during the call; \<^verbatim>\<open>clear_memory\<close> and \<^verbatim>\<open>clear_documents\<close>
  call no model and add no cost.
\<close>

record 'd collaborators =
  json_loads :: "string \<Rightarrow> exn + json"
  json_dumps :: "json \<Rightarrow> string"
  str_json :: "json \<Rightarrow> string"
  str_exn :: "exn \<Rightarrow> string"
  chain_constructors :: "ChatOpenAI \<Rightarrow> exn option"
  predict :: "request \<Rightarrow> (exn + string) \<times> rat"
  explain_topic :: "ChatAIWithoutDocuments \<Rightarrow> json \<Rightarrow> (string \<times> json) list
                     \<Rightarrow> (exn + json) \<times> ChatAIWithoutDocuments \<times> rat"
  generate_cards :: "ChatAIWithoutDocuments \<Rightarrow> json \<Rightarrow> (string \<times> json) list
                     \<Rightarrow> (exn + json) \<times> ChatAIWithoutDocuments \<times> rat"
  new_ChatAIWithDocuments :: "environ \<Rightarrow> exn + json \<Rightarrow> exn + 'd"
  wd_human_message :: "'d \<Rightarrow> json \<Rightarrow> (exn + json \<times> json) \<times> 'd \<times> rat"
  wd_explain_topic :: "'d \<Rightarrow> json \<Rightarrow> (string \<times> json) list \<Rightarrow> (exn + json) \<times> 'd \<times> rat"
  wd_clear_memory :: "'d \<Rightarrow> exn option \<times> 'd"
  wd_add_document_from_path :: "'d \<Rightarrow> json \<Rightarrow> exn option \<times> 'd \<times> rat"
  wd_clear_documents :: "'d \<Rightarrow> exn option \<times> 'd"
  wd_split_document :: "'d \<Rightarrow> json \<Rightarrow> (exn + json list) \<times> 'd \<times> rat"

text \<open>
  Modelled from the spec: \<^verbatim>\<open>InterprocessCommand\<close>, the enumeration of command tags,
  is imported by the dispatcher and is not among the source files. Its members are the
  tags the specification lists: the eight requests, their eight responses and
  \<^verbatim>\<open>SUBMODULE_ERROR\<close>; the value of a member is its name.
\<close>

datatype IC =
    SUBMODULE_ERROR
  | ASK_CONVERSATION_DOCUMENTS | DID_ASK_CONVERSATION_DOCUMENTS
  | ASK_CONVERSATION_NO_DOCUMENTS | DID_ASK_CONVERSATION_NO_DOCUMENTS
  | EXPLAIN_TOPIC | DID_EXPLAIN_TOPIC
  | GENERATE_CARDS | DID_GENERATE_CARDS
  | CLEAR_CONVERSATION | DID_CLEAR_CONVERSATION
  | ADD_DOCUMENTS | DID_ADD_DOCUMENTS
  | DELETE_ALL_DOCUMENTS | DID_DELETE_ALL_DOCUMENTS
  | SPLIT_DOCUMENT | DID_SPLIT_DOCUMENT

fun IC_value :: "IC \<Rightarrow> string" where
  "IC_value SUBMODULE_ERROR = ''SUBMODULE_ERROR''"
| "IC_value ASK_CONVERSATION_DOCUMENTS = ''ASK_CONVERSATION_DOCUMENTS''"
| "IC_value DID_ASK_CONVERSATION_DOCUMENTS = ''DID_ASK_CONVERSATION_DOCUMENTS''"
| "IC_value ASK_CONVERSATION_NO_DOCUMENTS = ''ASK_CONVERSATION_NO_DOCUMENTS''"
| "IC_value DID_ASK_CONVERSATION_NO_DOCUMENTS = ''DID_ASK_CONVERSATION_NO_DOCUMENTS''"
| "IC_value EXPLAIN_TOPIC = ''EXPLAIN_TOPIC''"
| "IC_value DID_EXPLAIN_TOPIC = ''DID_EXPLAIN_TOPIC''"
| "IC_value GENERATE_CARDS = ''GENERATE_CARDS''"
| "IC_value DID_GENERATE_CARDS = ''DID_GENERATE_CARDS''"
| "IC_value CLEAR_CONVERSATION = ''CLEAR_CONVERSATION''"
| "IC_value DID_CLEAR_CONVERSATION = ''DID_CLEAR_CONVERSATION''"
| "IC_value ADD_DOCUMENTS = ''ADD_DOCUMENTS''"
| "IC_value DID_ADD_DOCUMENTS = ''DID_ADD_DOCUMENTS''"
| "IC_value DELETE_ALL_DOCUMENTS = ''DELETE_ALL_DOCUMENTS''"
| "IC_value DID_DELETE_ALL_DOCUMENTS = ''DID_DELETE_ALL_DOCUMENTS''"
| "IC_value SPLIT_DOCUMENT = ''SPLIT_DOCUMENT''"
| "IC_value DID_SPLIT_DOCUMENT = ''DID_SPLIT_DOCUMENT''"

definition IC_members :: "IC list" where
  "IC_members =
     [SUBMODULE_ERROR,
      ASK_CONVERSATION_DOCUMENTS, DID_ASK_CONVERSATION_DOCUMENTS,
      ASK_CONVERSATION_NO_DOCUMENTS, DID_ASK_CONVERSATION_NO_DOCUMENTS,
      EXPLAIN_TOPIC, DID_EXPLAIN_TOPIC,
      GENERATE_CARDS, DID_GENERATE_CARDS,
      CLEAR_CONVERSATION, DID_CLEAR_CONVERSATION,
      ADD_DOCUMENTS, DID_ADD_DOCUMENTS,
      DELETE_ALL_DOCUMENTS, DID_DELETE_ALL_DOCUMENTS,
      SPLIT_DOCUMENT, DID_SPLIT_DOCUMENT]"

text \<open>
  \<^verbatim>\<open>IC[cmd]\<close>, the look-up of a member by name: \<^verbatim>\<open>KeyError\<close> for a name of no
  member and for every other hashable value, \<^verbatim>\<open>TypeError\<close> for a list or a dictionary,
  which cannot be hashed.
\<close>

fun IC_by_name :: "json \<Rightarrow> exn + IC" where
  "IC_by_name (JStr s) =
     (case find (\<lambda>m. IC_value m = s) IC_members of
        None \<Rightarrow> Inl (KeyError (JStr s))
      | Some m \<Rightarrow> Inr m)"
| "IC_by_name (JArr xs) = Inl TypeError"
| "IC_by_name (JObj d) = Inl TypeError"
| "IC_by_name v = Inl (KeyError v)"


section \<open>ChatAIWithoutDocuments.py\<close>

text \<open>
  \<^verbatim>\<open>ChatAIWithoutDocuments.__init__\<close>. The second argument is what opening and
  decoding \<^verbatim>\<open>settings.json\<close> gives at that moment: an exception, or the decoded value,
  whose \<^verbatim>\<open>.get\<close> raises \<^verbatim>\<open>AttributeError\<close> unless it is a dictionary.
  \<^verbatim>\<open>LLMProviderType(provider_str)\<close> raises \<^verbatim>\<open>ValueError\<close> when no member has
  that value, and the handler takes \<^verbatim>\<open>OPENAI\<close>.
\<close>

definition new_ChatAIWithoutDocuments ::
  "'d collaborators \<Rightarrow> environ \<Rightarrow> exn + json \<Rightarrow> exn + ChatAIWithoutDocuments" where
  "new_ChatAIWithoutDocuments lib env settings_file =
     (case settings_file of
        Inl e \<Rightarrow> Inl e
      | Inr (JObj data) \<Rightarrow>
          (let temperature = dict_get data ''temperature'' (JInt 0);
               model_name = dict_get data ''llmModel'' (JStr ''gpt-3.5-turbo'');
               provider_str = dict_get data ''llmProvider'' (JStr ''openai'');
               provider_type = (case LLMProviderType_of provider_str of
                                  None \<Rightarrow> OPENAI
                                | Some t \<Rightarrow> t);
               provider = create_provider provider_type (Some model_name) temperature;
               handle = get_llm env provider
           in case chain_constructors lib handle of
                Some e \<Rightarrow> Inl e
              | None \<Rightarrow> Inr \<lparr>llm = handle, memory = []\<rparr>)
      | Inr _ \<Rightarrow> Inl AttributeError)"

text \<open>The request \<^verbatim>\<open>conversationChain.predict(input=query)\<close> sends.\<close>

definition chain_request :: "ChatAIWithoutDocuments \<Rightarrow> json \<Rightarrow> request" where
  "chain_request w query = \<lparr>req_llm = llm w, req_history = memory w, req_input = query\<rparr>"

text \<open>
  \<^verbatim>\<open>human_message\<close> returns the pair of \<^verbatim>\<open>conversationChain.predict(input=query)\<close>
  and \<^verbatim>\<open>None\<close>. The chain is the chat library's \<^verbatim>\<open>ConversationChain\<close> over a
  \<^verbatim>\<open>ConversationBufferMemory\<close>: it sends the request, and on a reply the memory gains
  the human turn and the reply; an exception of the call leaves the memory as it was.
\<close>

definition human_message ::
  "'d collaborators \<Rightarrow> ChatAIWithoutDocuments \<Rightarrow> json
     \<Rightarrow> (exn + string \<times> json) \<times> ChatAIWithoutDocuments \<times> rat" where
  "human_message lib w query =
     (case predict lib (chain_request w query) of
        (Inl e, cost) \<Rightarrow> (Inl e, w, cost)
      | (Inr reply, cost) \<Rightarrow>
          (Inr (reply, JNull), w\<lparr>memory := memory w @ [Human query, AI reply]\<rparr>, cost))"

text \<open>\<^verbatim>\<open>clear_memory\<close>: \<^verbatim>\<open>self.memory.clear()\<close> empties the buffer in place.\<close>

definition clear_memory :: "ChatAIWithoutDocuments \<Rightarrow> ChatAIWithoutDocuments" where
  "clear_memory w = w\<lparr>memory := []\<rparr>"


section \<open>The dispatcher: \<^verbatim>\<open>__init__.py\<close>\<close>

text \<open>
  The module's global variables. The three wrappers are bound by the start-up code, and
  a name that was never bound is \<open>None\<close>: reading it raises \<^verbatim>\<open>NameError\<close>.
  \<open>oa_cb\<close> is the total cost held by the callback handler, bound when the loop is
  entered. \<open>sent\<close> is not a variable of the program: it records, in order, the
  requests the dispatcher's calls of \<open>human_message\<close> have sent.
\<close>

record 'd globals =
  os_environ :: environ
  withDocumentsAI :: "'d option"
  withoutDocumentsAI :: "ChatAIWithoutDocuments option"
  withoutDocumentsSingleQuery :: "ChatAIWithoutDocuments option"
  oa_cb :: "rat option"
  sent :: "request list"

text \<open>\<^verbatim>\<open>_module_return\<close> prints one line, the dictionary it is given.\<close>

definition private_module_return :: "(string \<times> json) list \<Rightarrow> json list" where
  "private_module_return data = [JObj data]"

definition module_return ::
  "'d globals \<Rightarrow> IC \<Rightarrow> (string \<times> json) list \<Rightarrow> exn + json list" where
  "module_return g cmd data =
     (case oa_cb g of
        Some total_cost \<Rightarrow>
          Inr (private_module_return
                 [(''cmd'', JStr (IC_value cmd)),
                  (''data'', JObj (dict_set data ''total_cost'' (JFloat total_cost)))])
      | None \<Rightarrow> Inl (PyException ''Must supply an OpenAICallbackHandler.''))"

definition module_error :: "string \<Rightarrow> json list" where
  "module_error text =
     private_module_return
       [(''cmd'', JStr (IC_value SUBMODULE_ERROR)),
        (''data'', JObj [(''error'', JStr text)])]"

text \<open>
  \<open>check_credentials\<close> raises, or returns its truth value together with the lines it
  has printed.
\<close>

definition check_credentials :: "environ \<Rightarrow> exn + json \<Rightarrow> exn + bool \<times> json list" where
  "check_credentials env settings_file =
     (case settings_file of
        Inl e \<Rightarrow> Inl e
      | Inr (JObj settings) \<Rightarrow>
          (let provider_str = dict_get settings ''llmProvider'' (JStr ''openai'');
               provider_type = (case LLMProviderType_of provider_str of
                                  None \<Rightarrow> OPENAI
                                | Some t \<Rightarrow> t)
           in case provider_type of
                OPENAI \<Rightarrow>
                  if getenv env ''OPENAI_API_KEY'' = None
                  then Inr (False, module_error ''Please set OPENAI_API_KEY'')
                  else Inr (True, [])
              | GITHUB_COPILOT \<Rightarrow>
                  if getenv env ''GITHUB_COPILOT_TOKEN'' = None
                  then Inr (False, module_error ''Please set GITHUB_COPILOT_TOKEN'')
                  else Inr (True, []))
      | Inr _ \<Rightarrow> Inl AttributeError)"

text \<open>
  The callback handler adds the cost of a call to its total while the call runs.
\<close>

definition add_cost :: "rat \<Rightarrow> 'd globals \<Rightarrow> 'd globals" where
  "add_cost cost g = g\<lparr>oa_cb := map_option (\<lambda>total_cost. total_cost + cost) (oa_cb g)\<rparr>"

text \<open>
  A branch of the dispatcher ends by raising (\<open>Some e\<close>) or normally (\<open>None\<close>), with
  the globals as they then are and the lines printed so far.
\<close>

type_synonym 'd outcome = "exn option \<times> 'd globals \<times> json list"

definition returning :: "'d globals \<Rightarrow> IC \<Rightarrow> (string \<times> json) list \<Rightarrow> 'd outcome" where
  "returning g cmd data =
     (case module_return g cmd data of
        Inl e \<Rightarrow> (Some e, g, [])
      | Inr printed \<Rightarrow> (None, g, printed))"

definition raising :: "exn \<Rightarrow> 'd globals \<Rightarrow> 'd outcome" where
  "raising e g = (Some e, g, [])"

definition and_then :: "exn + 'a \<Rightarrow> ('a \<Rightarrow> exn + 'b) \<Rightarrow> exn + 'b" where
  "and_then r f = (case r of Inl e \<Rightarrow> Inl e | Inr x \<Rightarrow> f x)"

definition ask_conversation_documents ::
  "'d collaborators \<Rightarrow> 'd globals \<Rightarrow> json \<Rightarrow> 'd outcome" where
  "ask_conversation_documents lib g data =
     (case withDocumentsAI g of
        None \<Rightarrow> raising (NameError ''withDocumentsAI'') g
      | Some wd \<Rightarrow>
          (case subscript data ''query'' of
             Inl e \<Rightarrow> raising e g
           | Inr query \<Rightarrow>
               (case wd_human_message lib wd query of
                  (r, wd', cost) \<Rightarrow>
                    (let g' = add_cost cost (g\<lparr>withDocumentsAI := Some wd'\<rparr>)
                     in case r of
                          Inl e \<Rightarrow> raising e g'
                        | Inr (response, sources) \<Rightarrow>
                            returning g' DID_ASK_CONVERSATION_DOCUMENTS
                              [(''response'', response),
                               (''source_documents'', JStr (json_dumps lib sources))]))))"

definition ask_conversation_no_documents ::
  "'d collaborators \<Rightarrow> 'd globals \<Rightarrow> json \<Rightarrow> 'd outcome" where
  "ask_conversation_no_documents lib g data =
     (case withoutDocumentsAI g of
        None \<Rightarrow> raising (NameError ''withoutDocumentsAI'') g
      | Some w \<Rightarrow>
          (case subscript data ''query'' of
             Inl e \<Rightarrow> raising e g
           | Inr query \<Rightarrow>
               (case human_message lib w query of
                  (r, w', cost) \<Rightarrow>
                    (let g' = add_cost cost
                                (g\<lparr>withoutDocumentsAI := Some w',
                                   sent := sent g @ [chain_request w query]\<rparr>)
                     in case r of
                          Inl e \<Rightarrow> raising e g'
                        | Inr (response, none) \<Rightarrow>
                            returning g' DID_ASK_CONVERSATION_NO_DOCUMENTS
                              [(''response'', JStr response)]))))"

text \<open>
  The fields \<^verbatim>\<open>EXPLAIN_TOPIC\<close> reads, in the source's order: the topic, the options
  dictionary it passes on, and \<^verbatim>\<open>use_documents\<close>.
\<close>

definition explain_topic_fields :: "json \<Rightarrow> exn + json \<times> (string \<times> json) list \<times> json" where
  "explain_topic_fields data =
     and_then (subscript data ''topic'') (\<lambda>topic.
     and_then (subscript data ''options'') (\<lambda>options.
     and_then (subscript options ''custom_prompt'') (\<lambda>custom_prompt.
     and_then (subscript options ''level_of_detail'') (\<lambda>level_of_detail.
     and_then (subscript options ''level_of_expertise'') (\<lambda>level_of_expertise.
     and_then (subscript options ''use_documents'') (\<lambda>use_documents.
     and_then (subscript options ''language'') (\<lambda>language.
       Inr (topic,
            [(''custom_prompt'', custom_prompt),
             (''level_of_detail'', level_of_detail),
             (''level_of_expertise'', level_of_expertise),
             (''language'', language)],
            use_documents))))))))"

definition explain_topic_cmd :: "'d collaborators \<Rightarrow> 'd globals \<Rightarrow> json \<Rightarrow> 'd outcome" where
  "explain_topic_cmd lib g data =
     (case explain_topic_fields data of
        Inl e \<Rightarrow> raising e g
      | Inr (topic, options, use_documents) \<Rightarrow>
          if truthy use_documents then
            (case withDocumentsAI g of
               None \<Rightarrow> raising (NameError ''withDocumentsAI'') g
             | Some wd \<Rightarrow>
                 (case wd_explain_topic lib wd topic options of
                    (r, wd', cost) \<Rightarrow>
                      (let g' = add_cost cost (g\<lparr>withDocumentsAI := Some wd'\<rparr>)
                       in case r of
                            Inl e \<Rightarrow> raising e g'
                          | Inr response \<Rightarrow>
                              returning g' DID_EXPLAIN_TOPIC [(''explanation'', response)])))
          else
            (case withoutDocumentsSingleQuery g of
               None \<Rightarrow> raising (NameError ''withoutDocumentsSingleQuery'') g
             | Some w \<Rightarrow>
                 (case explain_topic lib w topic options of
                    (r, w', cost) \<Rightarrow>
                      (let g' = add_cost cost (g\<lparr>withoutDocumentsSingleQuery := Some w'\<rparr>)
                       in case r of
                            Inl e \<Rightarrow> raising e g'
                          | Inr response \<Rightarrow>
                              returning g' DID_EXPLAIN_TOPIC [(''explanation'', response)]))))"

definition generate_cards_fields :: "json \<Rightarrow> exn + json \<times> (string \<times> json) list" where
  "generate_cards_fields data =
     and_then (subscript data ''text'') (\<lambda>text.
     and_then (subscript data ''custom_prompt'') (\<lambda>custom_prompt.
     and_then (subscript data ''type'') (\<lambda>card_type.
     and_then (subscript data ''language'') (\<lambda>language.
       Inr (text,
            [(''custom_prompt'', custom_prompt),
             (''type'', card_type),
             (''language'', language)])))))"

text \<open>
  \<^verbatim>\<open>GENERATE_CARDS\<close>: the call and \<^verbatim>\<open>module_return\<close> stand inside a
  \<^verbatim>\<open>try\<close> whose handler prints the error itself, so the branch ends normally.
\<close>

definition generate_cards_cmd :: "'d collaborators \<Rightarrow> 'd globals \<Rightarrow> json \<Rightarrow> 'd outcome" where
  "generate_cards_cmd lib g data =
     (case generate_cards_fields data of
        Inl e \<Rightarrow> raising e g
      | Inr (text, options) \<Rightarrow>
          (case (case withoutDocumentsSingleQuery g of
                   None \<Rightarrow> raising (NameError ''withoutDocumentsSingleQuery'') g
                 | Some w \<Rightarrow>
                     (case generate_cards lib w text options of
                        (r, w', cost) \<Rightarrow>
                          (let g' = add_cost cost (g\<lparr>withoutDocumentsSingleQuery := Some w'\<rparr>)
                           in case r of
                                Inl e \<Rightarrow> raising e g'
                              | Inr cards_raw_string \<Rightarrow>
                                  returning g' DID_GENERATE_CARDS
                                    [(''cardsRawString'', cards_raw_string)])))
           of (Some e, g', printed) \<Rightarrow> (None, g', printed @ module_error (str_exn lib e))
            | (None, g', printed) \<Rightarrow> (None, g', printed)))"

definition clear_conversation :: "'d collaborators \<Rightarrow> 'd globals \<Rightarrow> 'd outcome" where
  "clear_conversation lib g =
     (case withDocumentsAI g of
        None \<Rightarrow> raising (NameError ''withDocumentsAI'') g
      | Some wd \<Rightarrow>
          (case wd_clear_memory lib wd of
             (Some e, wd') \<Rightarrow> raising e (g\<lparr>withDocumentsAI := Some wd'\<rparr>)
           | (None, wd') \<Rightarrow>
               (let g' = g\<lparr>withDocumentsAI := Some wd'\<rparr>
                in case withoutDocumentsAI g' of
                     None \<Rightarrow> raising (NameError ''withoutDocumentsAI'') g'
                   | Some w \<Rightarrow>
                       (let g'' = g'\<lparr>withoutDocumentsAI := Some (clear_memory w)\<rparr>
                        in returning g'' DID_CLEAR_CONVERSATION []))))"

text \<open>
  \<^verbatim>\<open>for doc in documents\<close>: a list gives its elements, a dictionary its keys, a string
  its characters; nothing else can be iterated.
\<close>

fun py_iter :: "json \<Rightarrow> exn + json list" where
  "py_iter (JArr xs) = Inr xs"
| "py_iter (JObj d) = Inr (map (\<lambda>kv. JStr (fst kv)) d)"
| "py_iter (JStr s) = Inr (map (\<lambda>c. JStr [c]) s)"
| "py_iter _ = Inl TypeError"

text \<open>The first loop: \<^verbatim>\<open>docpaths.append(doc['path'])\<close> for each document.\<close>

fun collect_docpaths :: "json list \<Rightarrow> exn + json list" where
  "collect_docpaths [] = Inr []"
| "collect_docpaths (doc # docs) =
     and_then (subscript doc ''path'') (\<lambda>docpath.
     and_then (collect_docpaths docs) (\<lambda>docpaths. Inr (docpath # docpaths)))"

text \<open>The second loop: \<^verbatim>\<open>withDocumentsAI.add_document_from_path(docpath)\<close> for each path.\<close>

fun add_documents_from_paths ::
  "'d collaborators \<Rightarrow> 'd globals \<Rightarrow> json list \<Rightarrow> exn option \<times> 'd globals" where
  "add_documents_from_paths lib g [] = (None, g)"
| "add_documents_from_paths lib g (docpath # docpaths) =
     (case withDocumentsAI g of
        None \<Rightarrow> (Some (NameError ''withDocumentsAI''), g)
      | Some wd \<Rightarrow>
          (case wd_add_document_from_path lib wd docpath of
             (r, wd', cost) \<Rightarrow>
               (let g' = add_cost cost (g\<lparr>withDocumentsAI := Some wd'\<rparr>)
                in case r of
                     Some e \<Rightarrow> (Some e, g')
                   | None \<Rightarrow> add_documents_from_paths lib g' docpaths)))"

definition add_documents :: "'d collaborators \<Rightarrow> 'd globals \<Rightarrow> json \<Rightarrow> 'd outcome" where
  "add_documents lib g data =
     (case and_then (subscript data ''documents'') (\<lambda>documents.
           and_then (py_iter documents) (\<lambda>docs.
           and_then (collect_docpaths docs) (\<lambda>docpaths. Inr (documents, docpaths)))) of
        Inl e \<Rightarrow> raising e g
      | Inr (documents, docpaths) \<Rightarrow>
          (case add_documents_from_paths lib g docpaths of
             (Some e, g') \<Rightarrow> raising e g'
           | (None, g') \<Rightarrow> returning g' DID_ADD_DOCUMENTS [(''documents_added'', documents)]))"

definition delete_all_documents :: "'d collaborators \<Rightarrow> 'd globals \<Rightarrow> 'd outcome" where
  "delete_all_documents lib g =
     (case withDocumentsAI g of
        None \<Rightarrow> raising (NameError ''withDocumentsAI'') g
      | Some wd \<Rightarrow>
          (case wd_clear_documents lib wd of
             (Some e, wd') \<Rightarrow> raising e (g\<lparr>withDocumentsAI := Some wd'\<rparr>)
           | (None, wd') \<Rightarrow>
               returning (g\<lparr>withDocumentsAI := Some wd'\<rparr>) DID_DELETE_ALL_DOCUMENTS []))"

text \<open>
  \<^verbatim>\<open>SPLIT_DOCUMENT\<close>: the collaborator gives the \<^verbatim>\<open>page_content\<close> of each chunk.
\<close>

definition split_document :: "'d collaborators \<Rightarrow> 'd globals \<Rightarrow> json \<Rightarrow> 'd outcome" where
  "split_document lib g data =
     (case withDocumentsAI g of
        None \<Rightarrow> raising (NameError ''withDocumentsAI'') g
      | Some wd \<Rightarrow>
          (case subscript data ''path'' of
             Inl e \<Rightarrow> raising e g
           | Inr path \<Rightarrow>
               (case wd_split_document lib wd path of
                  (r, wd', cost) \<Rightarrow>
                    (let g' = add_cost cost (g\<lparr>withDocumentsAI := Some wd'\<rparr>)
                     in case r of
                          Inl e \<Rightarrow> raising e g'
                        | Inr chunks \<Rightarrow>
                            returning g' DID_SPLIT_DOCUMENT
                              [(''chunks'', JStr (json_dumps lib (JArr chunks)))]))))"

text \<open>
  The chain of comparisons in \<open>handle_module_input\<close>; a member that no comparison
  matches falls through the chain, and the function returns having printed nothing.
\<close>

fun dispatch :: "'d collaborators \<Rightarrow> 'd globals \<Rightarrow> json \<Rightarrow> IC \<Rightarrow> 'd outcome" where
  "dispatch lib g data ASK_CONVERSATION_DOCUMENTS = ask_conversation_documents lib g data"
| "dispatch lib g data ASK_CONVERSATION_NO_DOCUMENTS = ask_conversation_no_documents lib g data"
| "dispatch lib g data EXPLAIN_TOPIC = explain_topic_cmd lib g data"
| "dispatch lib g data GENERATE_CARDS = generate_cards_cmd lib g data"
| "dispatch lib g data CLEAR_CONVERSATION = clear_conversation lib g"
| "dispatch lib g data ADD_DOCUMENTS = add_documents lib g data"
| "dispatch lib g data DELETE_ALL_DOCUMENTS = delete_all_documents lib g"
| "dispatch lib g data SPLIT_DOCUMENT = split_document lib g data"
| "dispatch lib g data _ = (None, g, [])"

definition handle_module_input ::
  "'d collaborators \<Rightarrow> exn + json \<Rightarrow> 'd globals \<Rightarrow> json \<Rightarrow> 'd outcome" where
  "handle_module_input lib settings_file g data =
     (case check_credentials (os_environ g) settings_file of
        Inl e \<Rightarrow> raising e g
      | Inr (False, printed) \<Rightarrow> (None, g, printed)
      | Inr (True, printed) \<Rightarrow>
          (case and_then (subscript data ''cmd'') IC_by_name of
             Inl e \<Rightarrow> (Some e, g, printed)
           | Inr cmd \<Rightarrow>
               (case dispatch lib g data cmd of
                  (r, g', printed') \<Rightarrow> (r, g', printed @ printed'))))"



text \<open>
  \<^verbatim>\<open>str.strip()\<close>: the white space of Python among the characters below 256; a
  character of the model stands for one character of the line.
\<close>

definition is_space :: "char \<Rightarrow> bool" where
  "is_space c = ((of_char c :: nat) \<in> set [9, 10, 11, 12, 13, 28, 29, 30, 31, 32, 133, 160])"

definition strip :: "string \<Rightarrow> string" where
  "strip s = rev (dropWhile is_space (rev (dropWhile is_space s)))"

fun is_dict :: "json \<Rightarrow> bool" where
  "is_dict (JObj d) = True"
| "is_dict _ = False"

text \<open>
  One turn of the \<^verbatim>\<open>while True\<close> loop. It consumes what \<^verbatim>\<open>readline\<close> returns,
  and \<^verbatim>\<open>settings.json\<close> as it is when \<open>check_credentials\<close> opens it during
  that turn; it gives the globals after the turn and the lines printed. At the end of
  the input \<^verbatim>\<open>readline\<close> returns the empty string, and the loop goes on.
\<close>

definition loop_iteration ::
  "'d collaborators \<Rightarrow> 'd globals \<Rightarrow> (exn + json) \<times> string \<Rightarrow> 'd globals \<times> json list" where
  "loop_iteration lib g ev =
     (case ev of (settings_file, line) \<Rightarrow>
        (let input_line = strip line
         in if input_line = [] then (g, [])
            else case json_loads lib input_line of
                   Inl JSONDecodeError \<Rightarrow>
                     (g, module_error (''Invalid JSON input: '' @ input_line))
                 | Inl e \<Rightarrow> (g, module_error (str_exn lib e))
                 | Inr input_data \<Rightarrow>
                     if \<not> truthy input_data \<or> \<not> is_dict input_data
                     then (g, module_error (''<ChatAI Module> Malformed module input: ''
                                            @ str_json lib input_data))
                     else (case handle_module_input lib settings_file g input_data of
                             (Some e, g', printed) \<Rightarrow>
                               (g', printed @ module_error (str_exn lib e))
                           | (None, g', printed) \<Rightarrow> (g', printed))))"

text \<open>
  The loop over the lines read so far: it has no exit, so what can be said of it is
  said of every finite run of turns.
\<close>

fun main_loop ::
  "'d collaborators \<Rightarrow> 'd globals \<Rightarrow> ((exn + json) \<times> string) list \<Rightarrow> 'd globals \<times> json list" where
  "main_loop lib g [] = (g, [])"
| "main_loop lib g (ev # evs) =
     (case loop_iteration lib g ev of
        (g', printed) \<Rightarrow>
          (case main_loop lib g' evs of
             (g'', printed') \<Rightarrow> (g'', printed @ printed')))"

text \<open>
  The code before the loop. \<open>dotenv_file\<close> is what creating the \<^verbatim>\<open>.env\<close> file when
  absent and loading it gives: an exception, or the variables the file binds, which
  \<^verbatim>\<open>load_dotenv(override=True)\<close> puts over those of the environment.
\<close>

definition initial_globals :: "environ \<Rightarrow> 'd globals" where
  "initial_globals env =
     \<lparr>os_environ = env, withDocumentsAI = None, withoutDocumentsAI = None,
      withoutDocumentsSingleQuery = None, oa_cb = None, sent = []\<rparr>"

definition status_success :: "json list" where
  "status_success = private_module_return [(''status'', JStr ''success'')]"

definition startup ::
  "'d collaborators \<Rightarrow> environ \<Rightarrow> exn + environ \<Rightarrow> exn + json \<Rightarrow> 'd globals \<times> json list" where
  "startup lib env dotenv_file settings_file =
     (case dotenv_file of
        Inl e \<Rightarrow> (initial_globals env, module_error (str_exn lib e))
      | Inr dotenv \<Rightarrow>
          (let g = initial_globals (env ++ dotenv)
           in case check_credentials (os_environ g) settings_file of
                Inl e \<Rightarrow> (g, module_error (str_exn lib e))
              | Inr (False, printed) \<Rightarrow> (g, printed @ status_success)
              | Inr (True, printed) \<Rightarrow>
                  (case new_ChatAIWithDocuments lib (os_environ g) settings_file of
                     Inl e \<Rightarrow> (g, printed @ module_error (str_exn lib e))
                   | Inr wd \<Rightarrow>
                       (let g1 = g\<lparr>withDocumentsAI := Some wd\<rparr>
                        in case new_ChatAIWithoutDocuments lib (os_environ g1) settings_file of
                             Inl e \<Rightarrow> (g1, printed @ module_error (str_exn lib e))
                           | Inr w \<Rightarrow>
                               (let g2 = g1\<lparr>withoutDocumentsAI := Some w\<rparr>
                                in case new_ChatAIWithoutDocuments lib (os_environ g2)
                                          settings_file of
                                     Inl e \<Rightarrow> (g2, printed @ module_error (str_exn lib e))
                                   | Inr w' \<Rightarrow>
                                       (g2\<lparr>withoutDocumentsSingleQuery := Some w'\<rparr>,
                                        printed @ status_success))))))"

text \<open>\<^verbatim>\<open>with get_openai_callback() as oa_cb\<close>: a fresh handler, its total at zero.\<close>

definition enter_loop :: "'d globals \<Rightarrow> 'd globals" where
  "enter_loop g = g\<lparr>oa_cb := Some 0\<rparr>"

definition main ::
  "'d collaborators \<Rightarrow> environ \<Rightarrow> exn + environ \<Rightarrow> exn + json
     \<Rightarrow> ((exn + json) \<times> string) list \<Rightarrow> 'd globals \<times> json list" where
  "main lib env dotenv_file settings_file evs =
     (case startup lib env dotenv_file settings_file of
        (g, printed) \<Rightarrow>
          (case main_loop lib (enter_loop g) evs of
             (g', printed') \<Rightarrow> (g', printed @ printed')))"



section \<open>Reading the printed lines\<close>

text \<open>The tag of a printed line, and the total cost in its payload when it has one.\<close>

fun line_cmd :: "json \<Rightarrow> json option" where
  "line_cmd (JObj kvs) = map_of kvs ''cmd''"
| "line_cmd _ = None"

fun line_total_cost :: "json \<Rightarrow> json option" where
  "line_total_cost (JObj kvs) =
     (case map_of kvs ''data'' of
        Some (JObj data) \<Rightarrow> map_of data ''total_cost''
      | _ \<Rightarrow> None)"
| "line_total_cost _ = None"

text \<open>
  The two kinds of line the loop prints: an error line, which has the tag
  \<^verbatim>\<open>SUBMODULE_ERROR\<close> and no total cost, and the response to a command, which has
  another tag and carries a total cost. \<open>printed_costs\<close> lists, in order, the total
  costs that the printed lines carry.
\<close>

definition error_line :: "json \<Rightarrow> bool" where
  "error_line l = (line_cmd l = Some (JStr ''SUBMODULE_ERROR'') \<and> line_total_cost l = None)"

definition costed_line :: "rat \<Rightarrow> json \<Rightarrow> bool" where
  "costed_line c l =
     (line_cmd l \<noteq> None \<and> line_cmd l \<noteq> Some (JStr ''SUBMODULE_ERROR'')
      \<and> line_total_cost l = Some (JFloat c))"

definition printed_cost :: "json \<Rightarrow> rat option" where
  "printed_cost l = (case line_total_cost l of Some (JFloat c) \<Rightarrow> Some c | _ \<Rightarrow> None)"

definition printed_costs :: "json list \<Rightarrow> rat list" where
  "printed_costs ls = List.map_filter printed_cost ls"

text \<open>
  What holds of a turn of the loop that starts with the total \<open>c\<close>: the total does
  not go down, and every line printed is an error line or carries the total reached
  at the end of the turn.
\<close>

definition line_ok :: "rat \<Rightarrow> json \<Rightarrow> bool" where
  "line_ok c l = (error_line l \<or> costed_line c l)"

definition good :: "rat \<Rightarrow> 'd globals \<Rightarrow> json list \<Rightarrow> bool" where
  "good c g' printed =
     (\<exists>c'. oa_cb g' = Some c' \<and> c \<le> c' \<and> (\<forall>l \<in> set printed. line_ok c' l))"

definition good_outcome :: "rat \<Rightarrow> 'd outcome \<Rightarrow> bool" where
  "good_outcome c out = (case out of (r, g', printed) \<Rightarrow> good c g' printed)"

text \<open>
  The words of the claims about credentials: the provider type a settings dictionary
  configures (\<^verbatim>\<open>github_copilot\<close> when \<^verbatim>\<open>llmProvider\<close> says so, OpenAI otherwise),
  and the environment variable a provider type requires.
\<close>

definition configured_provider :: "(string \<times> json) list \<Rightarrow> LLMProviderType" where
  "configured_provider settings =
     (if map_of settings ''llmProvider'' = Some (JStr ''github_copilot'')
      then GITHUB_COPILOT else OPENAI)"

fun credential_env_var :: "LLMProviderType \<Rightarrow> string" where
  "credential_env_var OPENAI = ''OPENAI_API_KEY''"
| "credential_env_var GITHUB_COPILOT = ''GITHUB_COPILOT_TOKEN''"

text \<open>The requests of the protocol: the members the dispatcher has a branch for.\<close>

definition request_tags :: "IC list" where
  "request_tags =
     [ASK_CONVERSATION_DOCUMENTS, ASK_CONVERSATION_NO_DOCUMENTS, EXPLAIN_TOPIC, GENERATE_CARDS,
      CLEAR_CONVERSATION, ADD_DOCUMENTS, DELETE_ALL_DOCUMENTS, SPLIT_DOCUMENT]"

text \<open>
  What is taken of the libraries where a total cost is concerned: no call lowers the
  total of the callback handler.
\<close>

definition costs_never_negative :: "'d collaborators \<Rightarrow> bool" where
  "costs_never_negative lib =
     ((\<forall>r. 0 \<le> snd (predict lib r))
      \<and> (\<forall>w topic options. 0 \<le> snd (snd (explain_topic lib w topic options)))
      \<and> (\<forall>w text options. 0 \<le> snd (snd (generate_cards lib w text options)))
      \<and> (\<forall>wd query. 0 \<le> snd (snd (wd_human_message lib wd query)))
      \<and> (\<forall>wd topic options. 0 \<le> snd (snd (wd_explain_topic lib wd topic options)))
      \<and> (\<forall>wd docpath. 0 \<le> snd (snd (wd_add_document_from_path lib wd docpath)))
      \<and> (\<forall>wd path. 0 \<le> snd (snd (wd_split_document lib wd path))))"


section \<open>A concrete run\<close>

text \<open>
  Lines of the protocol, a decoder that knows them and rejects every other text, and
  collaborators that always answer: the inputs at which the theorems below are
  evaluated. The documents wrapper is the list of the paths added to it.
\<close>

definition line_bogus :: string where
  \<open>line_bogus = ''{"cmd": "BOGUS"}''\<close>

definition line_response_tag :: string where
  \<open>line_response_tag = ''{"cmd": "DID_CLEAR_CONVERSATION"}''\<close>

definition line_ask_1 :: string where
  \<open>line_ask_1 = ''{"cmd": "ASK_CONVERSATION_NO_DOCUMENTS", "query": "What is a cell?"}''\<close>

definition line_clear :: string where
  \<open>line_clear = ''{"cmd": "CLEAR_CONVERSATION"}''\<close>

definition line_ask_2 :: string where
  \<open>line_ask_2 = ''{"cmd": "ASK_CONVERSATION_NO_DOCUMENTS", "query": "X"}''\<close>

definition line_not_json :: string where
  \<open>line_not_json = ''{"cmd": BOGUS''\<close>

definition example_loads :: "string \<Rightarrow> exn + json" where
  "example_loads s =
     (if s = line_bogus then Inr (JObj [(''cmd'', JStr ''BOGUS'')])
      else if s = line_response_tag then Inr (JObj [(''cmd'', JStr ''DID_CLEAR_CONVERSATION'')])
      else if s = line_ask_1 then
        Inr (JObj [(''cmd'', JStr ''ASK_CONVERSATION_NO_DOCUMENTS''),
                   (''query'', JStr ''What is a cell?'')])
      else if s = line_clear then Inr (JObj [(''cmd'', JStr ''CLEAR_CONVERSATION'')])
      else if s = line_ask_2 then
        Inr (JObj [(''cmd'', JStr ''ASK_CONVERSATION_NO_DOCUMENTS''), (''query'', JStr ''X'')])
      else Inl JSONDecodeError)"

fun example_str_exn :: "exn \<Rightarrow> string" where
  "example_str_exn (KeyError k) = ''KeyError''"
| "example_str_exn TypeError = ''TypeError''"
| "example_str_exn (NameError n) = ''name '' @ n @ '' is not defined''"
| "example_str_exn AttributeError = ''AttributeError''"
| "example_str_exn JSONDecodeError = ''JSONDecodeError''"
| "example_str_exn (PyException m) = m"
| "example_str_exn (LibraryError m) = m"

definition example_lib :: "(json list) collaborators" where
  "example_lib =
     \<lparr>json_loads = example_loads,
      json_dumps = (\<lambda>v. ''[]''),
      str_json = (\<lambda>v. ''value''),
      str_exn = example_str_exn,
      chain_constructors = (\<lambda>handle. None),
      predict = (\<lambda>r. (Inr ''A reply.'', 1 / 500)),
      explain_topic = (\<lambda>w topic options. (Inr (JStr ''An explanation.''), w, 1 / 500)),
      generate_cards = (\<lambda>w text options. (Inr (JStr ''[]''), w, 1 / 500)),
      new_ChatAIWithDocuments = (\<lambda>env settings_file. Inr []),
      wd_human_message = (\<lambda>wd query. (Inr (JStr ''A reply.'', JArr []), wd, 1 / 250)),
      wd_explain_topic = (\<lambda>wd topic options. (Inr (JStr ''An explanation.''), wd, 1 / 250)),
      wd_clear_memory = (\<lambda>wd. (None, wd)),
      wd_add_document_from_path = (\<lambda>wd docpath. (None, wd @ [docpath], 0)),
      wd_clear_documents = (\<lambda>wd. (None, [])),
      wd_split_document = (\<lambda>wd path. (Inr [JStr ''chunk''], wd, 0))\<rparr>"

definition example_env :: environ where
  "example_env = [''OPENAI_API_KEY'' \<mapsto> ''sk-example'']"

definition example_settings :: "exn + json" where
  "example_settings = Inr (JObj [(''temperature'', JInt 0), (''llmModel'', JStr ''gpt-3.5-turbo'')])"

definition example_wrapper :: ChatAIWithoutDocuments where
  "example_wrapper =
     \<lparr>llm = \<lparr>arg_temperature = JInt 0, arg_model_name = JStr ''gpt-3.5-turbo'',
              openai_api_key = None, openai_api_base = None, model_kwargs = []\<rparr>,
      memory = []\<rparr>"

text \<open>The globals when the loop is entered after a start-up that succeeded.\<close>

definition example_globals :: "(json list) globals" where
  "example_globals =
     \<lparr>os_environ = example_env, withDocumentsAI = Some [],
      withoutDocumentsAI = Some example_wrapper,
      withoutDocumentsSingleQuery = Some example_wrapper,
      oa_cb = Some 0, sent = []\<rparr>"


section \<open>Credentials of a provider\<close>

text \<open>
  C1, as the code has it: for both provider kinds \<open>validate_credentials\<close> is true exactly
  when the provider's environment variable (\<^verbatim>\<open>OPENAI_API_KEY\<close>, \<^verbatim>\<open>GITHUB_COPILOT_TOKEN\<close>)
  is set in the process environment, whatever its value, the empty string included.
\<close>

theorem validate_credentials_iff_set:
  "validate_credentials env p = (env (get_api_key_env_var p) \<noteq> None)"
  by (cases p) (simp_all add: getenv_def)

text \<open>
  C1 as stated fails: with \<^verbatim>\<open>OPENAI_API_KEY\<close> set to the empty string the OpenAI provider
  validates although the variable is not non-empty, and likewise for the GitHub Copilot
  provider with an empty \<^verbatim>\<open>GITHUB_COPILOT_TOKEN\<close>.
\<close>

theorem validate_credentials_empty_value_counterexample:
  "validate_credentials [''OPENAI_API_KEY'' \<mapsto> ''''] (OpenAIProvider (JStr ''gpt-3.5-turbo'') (JInt 0))
     \<noteq> set_and_non_empty [''OPENAI_API_KEY'' \<mapsto> ''''] ''OPENAI_API_KEY''
   \<and> validate_credentials [''GITHUB_COPILOT_TOKEN'' \<mapsto> ''''] (GitHubCopilotProvider (JStr ''gpt-4o'') (JInt 0))
     \<noteq> set_and_non_empty [''GITHUB_COPILOT_TOKEN'' \<mapsto> ''''] ''GITHUB_COPILOT_TOKEN''"
  by (simp add: getenv_def set_and_non_empty_def)

section \<open>The loop on lines that are not JSON\<close>

lemma module_error_line:
  "module_error text =
     [JObj [(''cmd'', JStr ''SUBMODULE_ERROR''), (''data'', JObj [(''error'', JStr text)])]]"
  by (simp add: module_error_def private_module_return_def)

lemma main_loop_step:
  "loop_iteration lib g ev = (g', printed) \<Longrightarrow>
   main_loop lib g (ev # evs) =
     (fst (main_loop lib g' evs), printed @ snd (main_loop lib g' evs))"
  by (simp split: prod.splits)

text \<open>
  C4: when the line held by the loop (\<^verbatim>\<open>input_line\<close>, the text read with the white
  space around it removed) is not empty and \<^verbatim>\<open>json.loads\<close> rejects it, the turn prints
  exactly one \<^verbatim>\<open>SUBMODULE_ERROR\<close> line, whose payload holds the error string
  \<^verbatim>\<open>Invalid JSON input: \<close> followed by the line; the globals are unchanged and the
  loop goes on with the lines that follow, as it would have without the bad line.
\<close>

theorem invalid_json_line_one_error:
  assumes "strip line \<noteq> []"
    and "json_loads lib (strip line) = Inl JSONDecodeError"
  shows "loop_iteration lib g (settings_file, line) =
           (g, [JObj [(''cmd'', JStr ''SUBMODULE_ERROR''),
                      (''data'', JObj [(''error'', JStr (''Invalid JSON input: '' @ strip line))])]])
       \<and> main_loop lib g ((settings_file, line) # evs) =
           (fst (main_loop lib g evs),
            JObj [(''cmd'', JStr ''SUBMODULE_ERROR''),
                  (''data'', JObj [(''error'', JStr (''Invalid JSON input: '' @ strip line))])]
              # snd (main_loop lib g evs))"
proof -
  have step: "loop_iteration lib g (settings_file, line) =
           (g, [JObj [(''cmd'', JStr ''SUBMODULE_ERROR''),
                      (''data'', JObj [(''error'', JStr (''Invalid JSON input: '' @ strip line))])]])"
    using assms by (simp add: loop_iteration_def module_error_line)
  have "main_loop lib g ((settings_file, line) # evs) =
           (fst (main_loop lib g evs),
            JObj [(''cmd'', JStr ''SUBMODULE_ERROR''),
                  (''data'', JObj [(''error'', JStr (''Invalid JSON input: '' @ strip line))])]
              # snd (main_loop lib g evs))"
    using main_loop_step [OF step, of evs] by simp
  with step show ?thesis by blast
qed

lemma strip_line_not_json: "strip line_not_json = line_not_json"
  by (simp add: strip_def is_space_def line_not_json_def)

lemma loads_line_not_json: "example_loads line_not_json = Inl JSONDecodeError"
  by (simp add: example_loads_def line_not_json_def line_bogus_def line_response_tag_def
      line_ask_1_def line_clear_def line_ask_2_def)

theorem invalid_json_line_one_error_witness:
  "strip line_not_json \<noteq> []
   \<and> json_loads example_lib (strip line_not_json) = Inl JSONDecodeError
   \<and> main_loop example_lib example_globals [(example_settings, line_not_json)] =
       (example_globals,
        [JObj [(''cmd'', JStr ''SUBMODULE_ERROR''),
               (''data'', JObj [(''error'', JStr (''Invalid JSON input: '' @ line_not_json))])]])"
proof -
  have h1: "strip line_not_json \<noteq> []"
    by (simp add: strip_line_not_json) (simp add: line_not_json_def)
  have h2: "json_loads example_lib (strip line_not_json) = Inl JSONDecodeError"
    by (simp add: strip_line_not_json loads_line_not_json example_lib_def)
  show ?thesis
    using h1 h2 invalid_json_line_one_error [OF h1 h2, of example_globals example_settings "[]"]
    by (simp add: strip_line_not_json)
qed

section \<open>Credentials checked at every turn\<close>

lemma LLMProviderType_of_fallback:
  "(case LLMProviderType_of v of None \<Rightarrow> OPENAI | Some t \<Rightarrow> t) =
     (if v = JStr ''github_copilot'' then GITHUB_COPILOT else OPENAI)"
  by (cases v) simp_all

lemma settings_provider_type:
  "(case LLMProviderType_of (dict_get settings ''llmProvider'' (JStr ''openai'')) of
      None \<Rightarrow> OPENAI | Some t \<Rightarrow> t) = configured_provider settings"
  unfolding LLMProviderType_of_fallback
  by (cases "map_of settings ''llmProvider''") (simp_all add: dict_get_def configured_provider_def)

lemma check_credentials_dict:
  "check_credentials env (Inr (JObj settings)) =
     (if env (credential_env_var (configured_provider settings)) = None
      then Inr (False, module_error (''Please set '' @ credential_env_var (configured_provider settings)))
      else Inr (True, []))"
  unfolding check_credentials_def Let_def settings_provider_type
  by (cases "configured_provider settings") (simp_all add: getenv_def)

lemma check_credentials_raises:
  "check_credentials env (Inl e) = Inl e"
  by (simp add: check_credentials_def)

text \<open>
  C8: for every line that decodes to a non-empty dictionary, whatever command it names,
  the credentials of the provider the settings configure at that turn are checked first.
  When the required variable is not set, the turn prints exactly one error line
  (\<^verbatim>\<open>Please set\<close> and the variable), leaves the globals as they were, so that nothing
  of the command ran, and the loop goes on with the following lines; when the settings
  cannot be read, the check raises and the turn again prints exactly one error line and
  changes nothing. Only when the variable is set is the command looked up and dispatched.
\<close>

theorem credentials_checked_before_every_command:
  assumes "strip line \<noteq> []"
    and "json_loads lib (strip line) = Inr (JObj data)"
    and "data \<noteq> []"
  shows "(settings_file = Inr (JObj settings)
          \<and> os_environ g (credential_env_var (configured_provider settings)) = None
          \<longrightarrow> loop_iteration lib g (settings_file, line) =
                (g, module_error (''Please set '' @ credential_env_var (configured_provider settings)))
            \<and> main_loop lib g ((settings_file, line) # evs) =
                (fst (main_loop lib g evs),
                 module_error (''Please set '' @ credential_env_var (configured_provider settings))
                   @ snd (main_loop lib g evs)))
       \<and> (settings_file = Inl e
          \<longrightarrow> loop_iteration lib g (settings_file, line) = (g, module_error (str_exn lib e))
            \<and> main_loop lib g ((settings_file, line) # evs) =
                (fst (main_loop lib g evs), module_error (str_exn lib e) @ snd (main_loop lib g evs)))
       \<and> (settings_file = Inr (JObj settings)
          \<and> os_environ g (credential_env_var (configured_provider settings)) \<noteq> None
          \<longrightarrow> handle_module_input lib settings_file g (JObj data) =
                (case and_then (subscript (JObj data) ''cmd'') IC_by_name of
                   Inl e' \<Rightarrow> (Some e', g, [])
                 | Inr cmd \<Rightarrow> dispatch lib g (JObj data) cmd))"
proof (intro conjI impI)
  assume a: "settings_file = Inr (JObj settings)
          \<and> os_environ g (credential_env_var (configured_provider settings)) = None"
  show "loop_iteration lib g (settings_file, line) =
                (g, module_error (''Please set '' @ credential_env_var (configured_provider settings)))"
    using assms a
    by (simp add: loop_iteration_def handle_module_input_def check_credentials_dict)
  then show "main_loop lib g ((settings_file, line) # evs) =
                (fst (main_loop lib g evs),
                 module_error (''Please set '' @ credential_env_var (configured_provider settings))
                   @ snd (main_loop lib g evs))"
    by (rule main_loop_step)
next
  assume a: "settings_file = Inl e"
  show "loop_iteration lib g (settings_file, line) = (g, module_error (str_exn lib e))"
    using assms a
    by (simp add: loop_iteration_def handle_module_input_def check_credentials_raises raising_def)
  then show "main_loop lib g ((settings_file, line) # evs) =
                (fst (main_loop lib g evs), module_error (str_exn lib e) @ snd (main_loop lib g evs))"
    by (rule main_loop_step)
next
  assume a: "settings_file = Inr (JObj settings)
          \<and> os_environ g (credential_env_var (configured_provider settings)) \<noteq> None"
  show "handle_module_input lib settings_file g (JObj data) =
                (case and_then (subscript (JObj data) ''cmd'') IC_by_name of
                   Inl e' \<Rightarrow> (Some e', g, [])
                 | Inr cmd \<Rightarrow> dispatch lib g (JObj data) cmd)"
    using a
    by (auto simp: handle_module_input_def check_credentials_dict split: sum.splits prod.splits)
qed


section \<open>Facts of the concrete run\<close>

lemma example_lines_strip:
  "strip line_bogus = line_bogus" "strip line_response_tag = line_response_tag"
  "strip line_ask_1 = line_ask_1" "strip line_clear = line_clear" "strip line_ask_2 = line_ask_2"
  by (simp_all add: strip_def is_space_def line_bogus_def line_response_tag_def
      line_ask_1_def line_clear_def line_ask_2_def)

lemma example_lines_nonempty:
  "line_bogus \<noteq> []" "line_response_tag \<noteq> []" "line_ask_1 \<noteq> []" "line_clear \<noteq> []"
  "line_ask_2 \<noteq> []"
  by (simp_all add: line_bogus_def line_response_tag_def line_ask_1_def line_clear_def
      line_ask_2_def)

lemma example_lines_loads:
  "example_loads line_bogus = Inr (JObj [(''cmd'', JStr ''BOGUS'')])"
  "example_loads line_response_tag = Inr (JObj [(''cmd'', JStr ''DID_CLEAR_CONVERSATION'')])"
  "example_loads line_ask_1 =
     Inr (JObj [(''cmd'', JStr ''ASK_CONVERSATION_NO_DOCUMENTS''),
                (''query'', JStr ''What is a cell?'')])"
  "example_loads line_clear = Inr (JObj [(''cmd'', JStr ''CLEAR_CONVERSATION'')])"
  "example_loads line_ask_2 =
     Inr (JObj [(''cmd'', JStr ''ASK_CONVERSATION_NO_DOCUMENTS''), (''query'', JStr ''X'')])"
  by (simp_all add: example_loads_def line_bogus_def line_response_tag_def
      line_ask_1_def line_clear_def line_ask_2_def)

lemma example_lib_fields:
  "json_loads example_lib = example_loads"
  "str_exn example_lib = example_str_exn"
  "wd_clear_memory example_lib = (\<lambda>wd. (None, wd))"
  "predict example_lib = (\<lambda>r. (Inr ''A reply.'', 1 / 500))"
  "chain_constructors example_lib = (\<lambda>handle. None)"
  "new_ChatAIWithDocuments example_lib = (\<lambda>env settings_file. Inr [])"
  by (simp_all add: example_lib_def)

text \<open>
  The three cases at a concrete line: the key missing, the settings file missing, and
  the key present.
\<close>

theorem credentials_checked_before_every_command_witness:
  "main_loop example_lib (example_globals\<lparr>os_environ := Map.empty\<rparr>)
     [(example_settings, line_clear)] =
     (example_globals\<lparr>os_environ := Map.empty\<rparr>, module_error ''Please set OPENAI_API_KEY'')
   \<and> main_loop example_lib example_globals [(Inl (LibraryError ''No such file''), line_clear)] =
     (example_globals, module_error ''No such file'')
   \<and> handle_module_input example_lib example_settings example_globals
       (JObj [(''cmd'', JStr ''CLEAR_CONVERSATION'')]) =
     dispatch example_lib example_globals (JObj [(''cmd'', JStr ''CLEAR_CONVERSATION'')])
       CLEAR_CONVERSATION"
proof -
  have h1: "strip line_clear \<noteq> []"
    by (simp add: example_lines_strip example_lines_nonempty)
  have h2: "json_loads example_lib (strip line_clear) = Inr (JObj [(''cmd'', JStr ''CLEAR_CONVERSATION'')])"
    by (simp add: example_lines_strip example_lines_loads example_lib_fields)
  have h3: "[(''cmd'', JStr ''CLEAR_CONVERSATION'')] \<noteq> []"
    by simp
  have s: "example_settings =
             Inr (JObj [(''temperature'', JInt 0), (''llmModel'', JStr ''gpt-3.5-turbo'')])"
    by (simp add: example_settings_def)
  have p: "configured_provider [(''temperature'', JInt 0), (''llmModel'', JStr ''gpt-3.5-turbo'')] = OPENAI"
    by (simp add: configured_provider_def)
  have c1: "main_loop example_lib (example_globals\<lparr>os_environ := Map.empty\<rparr>)
     [(example_settings, line_clear)] =
     (example_globals\<lparr>os_environ := Map.empty\<rparr>, module_error ''Please set OPENAI_API_KEY'')"
    using credentials_checked_before_every_command [OF h1 h2 h3,
        of example_settings "[(''temperature'', JInt 0), (''llmModel'', JStr ''gpt-3.5-turbo'')]"
           "example_globals\<lparr>os_environ := Map.empty\<rparr>" "[]"] s p
    by simp
  have c2: "main_loop example_lib example_globals [(Inl (LibraryError ''No such file''), line_clear)] =
     (example_globals, module_error ''No such file'')"
    using credentials_checked_before_every_command [OF h1 h2 h3,
        of "Inl (LibraryError ''No such file'')" _ example_globals "[]" "LibraryError ''No such file''"]
    by (simp add: example_lib_fields)
  have c3: "handle_module_input example_lib example_settings example_globals
       (JObj [(''cmd'', JStr ''CLEAR_CONVERSATION'')]) =
     dispatch example_lib example_globals (JObj [(''cmd'', JStr ''CLEAR_CONVERSATION'')])
       CLEAR_CONVERSATION"
    using credentials_checked_before_every_command [OF h1 h2 h3,
        of example_settings "[(''temperature'', JInt 0), (''llmModel'', JStr ''gpt-3.5-turbo'')]"
           example_globals] s p
    by (simp add: example_globals_def example_env_def and_then_def IC_members_def)
  from c1 c2 c3 show ?thesis by blast
qed

section \<open>Tags the dispatcher has no branch for\<close>

lemma find_IC_value:
  "find (\<lambda>m. IC_value m = tag) IC_members = Some m \<Longrightarrow> IC_value m = tag"
  by (auto simp: find_Some_iff)

lemma dispatch_not_request:
  "IC_value m \<notin> set (map IC_value request_tags) \<Longrightarrow> dispatch lib g data m = (None, g, [])"
  by (cases m) (simp_all add: request_tags_def)

text \<open>
  C2, as the code has it: for a line that decodes to a dictionary whose command tag is
  none of the eight requests, with the credentials of the configured provider set, the
  turn leaves the globals unchanged and the loop goes on with the next line. It prints
  nothing when the tag names a member of the command enumeration (a response tag or
  \<^verbatim>\<open>SUBMODULE_ERROR\<close>), and exactly one \<^verbatim>\<open>SUBMODULE_ERROR\<close> line, the text of the
  \<^verbatim>\<open>KeyError\<close>, when the tag names no member.
\<close>

theorem unhandled_command_tag:
  assumes "strip line \<noteq> []"
    and "json_loads lib (strip line) = Inr (JObj data)"
    and "map_of data ''cmd'' = Some (JStr tag)"
    and "tag \<notin> set (map IC_value request_tags)"
    and "settings_file = Inr (JObj settings)"
    and "os_environ g (credential_env_var (configured_provider settings)) \<noteq> None"
  shows "loop_iteration lib g (settings_file, line) =
           (g, if tag \<in> set (map IC_value IC_members) then []
               else module_error (str_exn lib (KeyError (JStr tag))))
       \<and> main_loop lib g ((settings_file, line) # evs) =
           (fst (main_loop lib g evs),
            (if tag \<in> set (map IC_value IC_members) then []
             else module_error (str_exn lib (KeyError (JStr tag))))
              @ snd (main_loop lib g evs))"
proof -
  have nonempty: "data \<noteq> []"
    using assms(3) by auto
  have creds: "check_credentials (os_environ g) settings_file = Inr (True, [])"
    using assms(5,6) by (simp add: check_credentials_dict)
  have handled: "handle_module_input lib settings_file g (JObj data) =
      (if tag \<in> set (map IC_value IC_members) then (None, g, [])
       else (Some (KeyError (JStr tag)), g, []))"
  proof (cases "find (\<lambda>m. IC_value m = tag) IC_members")
    case None
    then have "tag \<notin> set (map IC_value IC_members)"
      by (auto simp: find_None_iff)
    with None show ?thesis
      using assms(3) creds by (simp add: handle_module_input_def and_then_def)
  next
    case (Some m)
    then have v: "IC_value m = tag" by (rule find_IC_value)
    from Some have "m \<in> set IC_members" by (auto simp: find_Some_iff in_set_conv_nth)
    with v have mem: "tag \<in> set (map IC_value IC_members)" by force
    have "dispatch lib g (JObj data) m = (None, g, [])"
      using assms(4) v by (simp add: dispatch_not_request)
    with Some mem show ?thesis
      using assms(3) creds by (simp add: handle_module_input_def and_then_def)
  qed
  have step: "loop_iteration lib g (settings_file, line) =
           (g, if tag \<in> set (map IC_value IC_members) then []
               else module_error (str_exn lib (KeyError (JStr tag))))"
    using assms(1,2) nonempty handled by (simp add: loop_iteration_def)
  from step main_loop_step [OF step, of evs] show ?thesis by blast
qed


lemmas example_run_defs =
  loop_iteration_def handle_module_input_def check_credentials_def example_settings_def
  example_globals_def example_env_def dict_get_def getenv_def and_then_def IC_members_def
  raising_def returning_def module_return_def module_error_def private_module_return_def
  example_lines_strip example_lines_nonempty example_lines_loads example_lib_fields
  example_wrapper_def

text \<open>
  A response tag followed by a tag of no member: one error line in all, for the second.
\<close>

theorem unhandled_command_tag_witness:
  "main_loop example_lib example_globals
     [(example_settings, line_response_tag), (example_settings, line_bogus)] =
     (example_globals,
      [JObj [(''cmd'', JStr ''SUBMODULE_ERROR''), (''data'', JObj [(''error'', JStr ''KeyError'')])]])"
proof -
  have s: "example_settings =
             Inr (JObj [(''temperature'', JInt 0), (''llmModel'', JStr ''gpt-3.5-turbo'')])"
    by (simp add: example_settings_def)
  have p: "os_environ example_globals
      (credential_env_var (configured_provider
         [(''temperature'', JInt 0), (''llmModel'', JStr ''gpt-3.5-turbo'')])) \<noteq> None"
    by (simp add: configured_provider_def example_globals_def example_env_def)
  have a1: "strip line_response_tag \<noteq> []"
    by (simp add: example_lines_strip example_lines_nonempty)
  have a2: "json_loads example_lib (strip line_response_tag) =
              Inr (JObj [(''cmd'', JStr ''DID_CLEAR_CONVERSATION'')])"
    by (simp add: example_lines_strip example_lines_loads example_lib_fields)
  have a3: "map_of [(''cmd'', JStr ''DID_CLEAR_CONVERSATION'')] ''cmd'' = Some (JStr ''DID_CLEAR_CONVERSATION'')"
    by simp
  have a4: "''DID_CLEAR_CONVERSATION'' \<notin> set (map IC_value request_tags)"
    by (simp add: request_tags_def)
  have b1: "strip line_bogus \<noteq> []"
    by (simp add: example_lines_strip example_lines_nonempty)
  have b2: "json_loads example_lib (strip line_bogus) = Inr (JObj [(''cmd'', JStr ''BOGUS'')])"
    by (simp add: example_lines_strip example_lines_loads example_lib_fields)
  have b3: "map_of [(''cmd'', JStr ''BOGUS'')] ''cmd'' = Some (JStr ''BOGUS'')"
    by simp
  have b4: "''BOGUS'' \<notin> set (map IC_value request_tags)"
    by (simp add: request_tags_def)
  have second: "main_loop example_lib example_globals [(example_settings, line_bogus)] =
     (example_globals,
      [JObj [(''cmd'', JStr ''SUBMODULE_ERROR''), (''data'', JObj [(''error'', JStr ''KeyError'')])]])"
    using unhandled_command_tag [OF b1 b2 b3 b4 s p, of "[]"]
    by (simp add: IC_members_def module_error_line example_lib_fields)
  show ?thesis
    using unhandled_command_tag [OF a1 a2 a3 a4 s p, of "[(example_settings, line_bogus)]"] second
    by (simp add: IC_members_def)
qed

text \<open>
  C2 as stated fails: the line \<^verbatim>\<open>{"cmd": "BOGUS"}\<close> decodes to a dictionary whose tag
  is not recognized, and the turn prints an error line for it.
\<close>

theorem unrecognized_tag_silently_ignored_counterexample:
  "json_loads example_lib (strip line_bogus) = Inr (JObj [(''cmd'', JStr ''BOGUS'')])
   \<and> ''BOGUS'' \<notin> set (map IC_value IC_members)
   \<and> loop_iteration example_lib example_globals (example_settings, line_bogus) =
       (example_globals,
        [JObj [(''cmd'', JStr ''SUBMODULE_ERROR''), (''data'', JObj [(''error'', JStr ''KeyError'')])]])"
  by (simp add: example_run_defs)

section \<open>The provider the settings select\<close>

lemma new_ChatAIWithoutDocuments_dict:
  "new_ChatAIWithoutDocuments lib env (Inr (JObj settings)) =
     (let handle = get_llm env
            (create_provider (configured_provider settings)
               (Some (dict_get settings ''llmModel'' (JStr ''gpt-3.5-turbo'')))
               (dict_get settings ''temperature'' (JInt 0)))
      in case chain_constructors lib handle of
           Some e \<Rightarrow> Inl e
         | None \<Rightarrow> Inr \<lparr>llm = handle, memory = []\<rparr>)"
  unfolding new_ChatAIWithoutDocuments_def Let_def settings_provider_type
  by simp

text \<open>
  C5: with \<^verbatim>\<open>llmProvider\<close> \<^verbatim>\<open>github_copilot\<close> and \<^verbatim>\<open>llmModel\<close> \<^verbatim>\<open>gpt-4\<close> in the
  settings, the factory builds a GitHub Copilot provider with the model \<^verbatim>\<open>gpt-4\<close>, which
  is not the default \<^verbatim>\<open>gpt-4o\<close>; its handle has the base URL
  \<^verbatim>\<open>https://api.githubcopilot.com\<close> and the model name \<^verbatim>\<open>gpt-4\<close>, and this is the
  handle of the wrapper the constructor returns, which raises only when a constructor of
  the chat library does.
\<close>

theorem github_copilot_model_gpt_4:
  assumes "map_of settings ''llmProvider'' = Some (JStr ''github_copilot'')"
    and "map_of settings ''llmModel'' = Some (JStr ''gpt-4'')"
  shows "create_provider GITHUB_COPILOT (Some (JStr ''gpt-4'')) t =
           GitHubCopilotProvider (JStr ''gpt-4'') t
       \<and> openai_api_base (get_llm env (GitHubCopilotProvider (JStr ''gpt-4'') t)) =
           Some ''https://api.githubcopilot.com''
       \<and> arg_model_name (get_llm env (GitHubCopilotProvider (JStr ''gpt-4'') t)) = JStr ''gpt-4''
       \<and> JStr ''gpt-4'' \<noteq> JStr DEFAULT_MODEL
       \<and> (case new_ChatAIWithoutDocuments lib env (Inr (JObj settings)) of
            Inl e \<Rightarrow>
              chain_constructors lib
                (get_llm env (GitHubCopilotProvider (JStr ''gpt-4'')
                                (dict_get settings ''temperature'' (JInt 0)))) = Some e
          | Inr w \<Rightarrow>
              llm w = get_llm env (GitHubCopilotProvider (JStr ''gpt-4'')
                                     (dict_get settings ''temperature'' (JInt 0)))
              \<and> openai_api_base (llm w) = Some ''https://api.githubcopilot.com''
              \<and> arg_model_name (llm w) = JStr ''gpt-4''
              \<and> memory w = [])"
proof -
  have p: "configured_provider settings = GITHUB_COPILOT"
    using assms(1) by (simp add: configured_provider_def)
  have m: "dict_get settings ''llmModel'' (JStr ''gpt-3.5-turbo'') = JStr ''gpt-4''"
    using assms(2) by (simp add: dict_get_def)
  have c: "create_provider GITHUB_COPILOT (Some (JStr ''gpt-4'')) u =
           GitHubCopilotProvider (JStr ''gpt-4'') u" for u
    by (simp add: py_or_def)
  show ?thesis
    unfolding new_ChatAIWithoutDocuments_dict p m c Let_def
    by (simp add: DEFAULT_MODEL_def split: option.splits)
qed

text \<open>The wrapper built from these settings, with a token in the environment.\<close>

theorem github_copilot_model_gpt_4_witness:
  "new_ChatAIWithoutDocuments example_lib [''GITHUB_COPILOT_TOKEN'' \<mapsto> ''ghu-example'']
     (Inr (JObj [(''llmProvider'', JStr ''github_copilot''), (''llmModel'', JStr ''gpt-4'')])) =
   Inr \<lparr>llm = \<lparr>arg_temperature = JInt 0, arg_model_name = JStr ''gpt-4'',
               openai_api_key = Some (Some ''ghu-example''),
               openai_api_base = Some ''https://api.githubcopilot.com'',
               model_kwargs = [(''headers'', [(''Editor-Version'', ''vscode/1.95.0''),
                                 (''Editor-Plugin-Version'', ''copilot-chat/0.22.4'')])]\<rparr>,
        memory = []\<rparr>"
proof -
  have h1: "map_of [(''llmProvider'', JStr ''github_copilot''), (''llmModel'', JStr ''gpt-4'')]
              ''llmProvider'' = Some (JStr ''github_copilot'')"
    by simp
  have h2: "map_of [(''llmProvider'', JStr ''github_copilot''), (''llmModel'', JStr ''gpt-4'')]
              ''llmModel'' = Some (JStr ''gpt-4'')"
    by simp
  have ok: "new_ChatAIWithoutDocuments example_lib [''GITHUB_COPILOT_TOKEN'' \<mapsto> ''ghu-example'']
     (Inr (JObj [(''llmProvider'', JStr ''github_copilot''), (''llmModel'', JStr ''gpt-4'')])) =
     Inr \<lparr>llm = get_llm [''GITHUB_COPILOT_TOKEN'' \<mapsto> ''ghu-example'']
                    (GitHubCopilotProvider (JStr ''gpt-4'') (JInt 0)), memory = []\<rparr>"
    using github_copilot_model_gpt_4 [OF h1 h2, of "JInt 0"
        "[''GITHUB_COPILOT_TOKEN'' \<mapsto> ''ghu-example'']" example_lib]
    by (cases "new_ChatAIWithoutDocuments example_lib [''GITHUB_COPILOT_TOKEN'' \<mapsto> ''ghu-example'']
     (Inr (JObj [(''llmProvider'', JStr ''github_copilot''), (''llmModel'', JStr ''gpt-4'')]))")
       (simp_all add: example_lib_fields dict_get_def)
  then show ?thesis by (simp add: getenv_def)
qed

text \<open>
  C6: when the value under \<^verbatim>\<open>llmProvider\<close> is neither \<^verbatim>\<open>openai\<close> nor
  \<^verbatim>\<open>github_copilot\<close>, the enumeration has no member of that value, and both readers of
  the settings take the OpenAI provider: \<open>check_credentials\<close> asks for
  \<^verbatim>\<open>OPENAI_API_KEY\<close>, and the constructor of the wrapper builds the handle of an OpenAI
  provider (no base URL, no key passed), with the model and temperature of the settings.
\<close>

theorem unrecognized_provider_falls_back_to_openai:
  assumes "map_of settings ''llmProvider'' = Some v"
    and "v \<noteq> JStr ''openai''"
    and "v \<noteq> JStr ''github_copilot''"
  shows "LLMProviderType_of v = None
       \<and> check_credentials env (Inr (JObj settings)) =
           (if env ''OPENAI_API_KEY'' = None
            then Inr (False, module_error ''Please set OPENAI_API_KEY'')
            else Inr (True, []))
       \<and> (case new_ChatAIWithoutDocuments lib env (Inr (JObj settings)) of
            Inl e \<Rightarrow>
              chain_constructors lib
                (get_llm env (create_provider OPENAI
                   (Some (dict_get settings ''llmModel'' (JStr ''gpt-3.5-turbo'')))
                   (dict_get settings ''temperature'' (JInt 0)))) = Some e
          | Inr w \<Rightarrow>
              llm w = get_llm env (create_provider OPENAI
                        (Some (dict_get settings ''llmModel'' (JStr ''gpt-3.5-turbo'')))
                        (dict_get settings ''temperature'' (JInt 0)))
              \<and> openai_api_base (llm w) = None
              \<and> openai_api_key (llm w) = None
              \<and> memory w = [])
       \<and> provider_kind (create_provider OPENAI
            (Some (dict_get settings ''llmModel'' (JStr ''gpt-3.5-turbo'')))
            (dict_get settings ''temperature'' (JInt 0))) = OPENAI"
proof -
  have none: "LLMProviderType_of v = None"
    using assms(2,3) by (cases v) simp_all
  have p: "configured_provider settings = OPENAI"
    using assms by (simp add: configured_provider_def)
  have creds: "check_credentials env (Inr (JObj settings)) =
           (if env ''OPENAI_API_KEY'' = None
            then Inr (False, module_error ''Please set OPENAI_API_KEY'')
            else Inr (True, []))"
    by (simp add: check_credentials_dict p)
  have wrapper: "(case new_ChatAIWithoutDocuments lib env (Inr (JObj settings)) of
            Inl e \<Rightarrow>
              chain_constructors lib
                (get_llm env (create_provider OPENAI
                   (Some (dict_get settings ''llmModel'' (JStr ''gpt-3.5-turbo'')))
                   (dict_get settings ''temperature'' (JInt 0)))) = Some e
          | Inr w \<Rightarrow>
              llm w = get_llm env (create_provider OPENAI
                        (Some (dict_get settings ''llmModel'' (JStr ''gpt-3.5-turbo'')))
                        (dict_get settings ''temperature'' (JInt 0)))
              \<and> openai_api_base (llm w) = None
              \<and> openai_api_key (llm w) = None
              \<and> memory w = [])"
    unfolding new_ChatAIWithoutDocuments_dict p Let_def
    by (simp split: option.splits)
  from none creds wrapper show ?thesis by simp
qed

text \<open>The settings \<^verbatim>\<open>{"llmProvider": "bogus", "llmModel": "gpt-4"}\<close>.\<close>

theorem unrecognized_provider_falls_back_to_openai_witness:
  "check_credentials example_env
     (Inr (JObj [(''llmProvider'', JStr ''bogus''), (''llmModel'', JStr ''gpt-4'')])) =
     Inr (True, [])
   \<and> check_credentials [''GITHUB_COPILOT_TOKEN'' \<mapsto> ''ghu-example'']
     (Inr (JObj [(''llmProvider'', JStr ''bogus''), (''llmModel'', JStr ''gpt-4'')])) =
     Inr (False, module_error ''Please set OPENAI_API_KEY'')
   \<and> new_ChatAIWithoutDocuments example_lib example_env
       (Inr (JObj [(''llmProvider'', JStr ''bogus''), (''llmModel'', JStr ''gpt-4'')])) =
     Inr \<lparr>llm = \<lparr>arg_temperature = JInt 0, arg_model_name = JStr ''gpt-4'',
                 openai_api_key = None, openai_api_base = None, model_kwargs = []\<rparr>,
          memory = []\<rparr>"
proof -
  have h1: "map_of [(''llmProvider'', JStr ''bogus''), (''llmModel'', JStr ''gpt-4'')]
              ''llmProvider'' = Some (JStr ''bogus'')"
    by simp
  have h2: "JStr ''bogus'' \<noteq> JStr ''openai''" by simp
  have h3: "JStr ''bogus'' \<noteq> JStr ''github_copilot''" by simp
  have c1: "check_credentials example_env
     (Inr (JObj [(''llmProvider'', JStr ''bogus''), (''llmModel'', JStr ''gpt-4'')])) =
     Inr (True, [])"
    using unrecognized_provider_falls_back_to_openai [OF h1 h2 h3, of example_env example_lib]
    by (simp add: example_env_def)
  have c2: "check_credentials [''GITHUB_COPILOT_TOKEN'' \<mapsto> ''ghu-example'']
     (Inr (JObj [(''llmProvider'', JStr ''bogus''), (''llmModel'', JStr ''gpt-4'')])) =
     Inr (False, module_error ''Please set OPENAI_API_KEY'')"
    using unrecognized_provider_falls_back_to_openai [OF h1 h2 h3,
        of "[''GITHUB_COPILOT_TOKEN'' \<mapsto> ''ghu-example'']" example_lib]
    by simp
  have c3: "new_ChatAIWithoutDocuments example_lib example_env
       (Inr (JObj [(''llmProvider'', JStr ''bogus''), (''llmModel'', JStr ''gpt-4'')])) =
     Inr \<lparr>llm = \<lparr>arg_temperature = JInt 0, arg_model_name = JStr ''gpt-4'',
                 openai_api_key = None, openai_api_base = None, model_kwargs = []\<rparr>,
          memory = []\<rparr>"
    using unrecognized_provider_falls_back_to_openai [OF h1 h2 h3, of example_env example_lib]
    by (cases "new_ChatAIWithoutDocuments example_lib example_env
       (Inr (JObj [(''llmProvider'', JStr ''bogus''), (''llmModel'', JStr ''gpt-4'')]))")
       (simp_all add: example_lib_fields dict_get_def py_or_def)
  from c1 c2 c3 show ?thesis by blast
qed

section \<open>Clearing the conversation\<close>

lemma IC_by_name_CLEAR_CONVERSATION:
  "IC_by_name (JStr ''CLEAR_CONVERSATION'') = Inr CLEAR_CONVERSATION"
  by (simp add: IC_members_def)

lemma IC_by_name_ASK_CONVERSATION_NO_DOCUMENTS:
  "IC_by_name (JStr ''ASK_CONVERSATION_NO_DOCUMENTS'') = Inr ASK_CONVERSATION_NO_DOCUMENTS"
  by (simp add: IC_members_def)

lemma handle_clear_conversation:
  assumes "subscript data ''cmd'' = Inr (JStr ''CLEAR_CONVERSATION'')"
  shows "handle_module_input lib settings_file g data =
     (case check_credentials (os_environ g) settings_file of
        Inl e \<Rightarrow> (Some e, g, [])
      | Inr (ok, printed) \<Rightarrow>
          if ok then (case clear_conversation lib g of (r, g', printed') \<Rightarrow> (r, g', printed @ printed'))
          else (None, g, printed))"
  using assms
  by (simp add: handle_module_input_def and_then_def IC_members_def raising_def
      split: sum.splits prod.splits bool.splits)

lemma clear_conversation_frame:
  assumes "clear_conversation lib g = (r, g', printed)"
  shows "os_environ g' = os_environ g
       \<and> withoutDocumentsSingleQuery g' = withoutDocumentsSingleQuery g
       \<and> oa_cb g' = oa_cb g
       \<and> sent g' = sent g
       \<and> (withoutDocumentsAI g' = withoutDocumentsAI g
          \<or> withoutDocumentsAI g' = map_option clear_memory (withoutDocumentsAI g))"
  using assms
  by (auto simp: clear_conversation_def raising_def returning_def Let_def
      split: option.splits prod.splits sum.splits)

lemma clear_conversation_ready:
  assumes "withDocumentsAI g = Some wd"
    and "wd_clear_memory lib wd = (None, wd')"
    and "withoutDocumentsAI g = Some w"
    and "oa_cb g = Some spent"
  shows "clear_conversation lib g =
     (None,
      g\<lparr>withDocumentsAI := Some wd', withoutDocumentsAI := Some (w\<lparr>memory := []\<rparr>)\<rparr>,
      [JObj [(''cmd'', JStr ''DID_CLEAR_CONVERSATION''),
             (''data'', JObj [(''total_cost'', JFloat spent)])]])"
  using assms
  by (simp add: clear_conversation_def returning_def module_return_def private_module_return_def
      clear_memory_def)

text \<open>
  C10: whatever the globals are and however the command ends, handling
  \<^verbatim>\<open>CLEAR_CONVERSATION\<close> leaves the single-query wrapper, the environment, the total
  cost and the record of requests as they were, and the without-documents wrapper is
  either untouched or has its memory cleared; only the two conversation wrappers can
  change. With the credentials set, both wrappers bound and \<^verbatim>\<open>clear_memory\<close> of the
  with-documents wrapper returning, the globals afterwards are the globals before with
  the with-documents wrapper as its \<^verbatim>\<open>clear_memory\<close> left it and the memory of the
  without-documents wrapper empty, and one \<^verbatim>\<open>DID_CLEAR_CONVERSATION\<close> line is printed.
\<close>

theorem clear_conversation_changes_two_wrappers_only:
  assumes "subscript data ''cmd'' = Inr (JStr ''CLEAR_CONVERSATION'')"
  shows "(case handle_module_input lib settings_file g data of
            (r, g', printed) \<Rightarrow>
              os_environ g' = os_environ g
              \<and> withoutDocumentsSingleQuery g' = withoutDocumentsSingleQuery g
              \<and> oa_cb g' = oa_cb g
              \<and> sent g' = sent g
              \<and> (withoutDocumentsAI g' = withoutDocumentsAI g
                 \<or> withoutDocumentsAI g' = map_option clear_memory (withoutDocumentsAI g)))
       \<and> (settings_file = Inr (JObj settings)
            \<and> os_environ g (credential_env_var (configured_provider settings)) \<noteq> None
            \<and> withDocumentsAI g = Some wd
            \<and> wd_clear_memory lib wd = (None, wd')
            \<and> withoutDocumentsAI g = Some w
            \<and> oa_cb g = Some spent
          \<longrightarrow> handle_module_input lib settings_file g data =
                (None,
                 g\<lparr>withDocumentsAI := Some wd',
                   withoutDocumentsAI := Some (w\<lparr>memory := []\<rparr>)\<rparr>,
                 [JObj [(''cmd'', JStr ''DID_CLEAR_CONVERSATION''),
                        (''data'', JObj [(''total_cost'', JFloat spent)])]]))"
proof (intro conjI impI)
  show "case handle_module_input lib settings_file g data of
            (r, g', printed) \<Rightarrow>
              os_environ g' = os_environ g
              \<and> withoutDocumentsSingleQuery g' = withoutDocumentsSingleQuery g
              \<and> oa_cb g' = oa_cb g
              \<and> sent g' = sent g
              \<and> (withoutDocumentsAI g' = withoutDocumentsAI g
                 \<or> withoutDocumentsAI g' = map_option clear_memory (withoutDocumentsAI g))"
  proof -
    obtain r g' printed where c: "clear_conversation lib g = (r, g', printed)"
      by (cases "clear_conversation lib g") auto
    from clear_conversation_frame [OF c] c show ?thesis
      unfolding handle_clear_conversation [OF assms]
      by (simp split: sum.splits prod.splits)
  qed
next
  assume a: "settings_file = Inr (JObj settings)
            \<and> os_environ g (credential_env_var (configured_provider settings)) \<noteq> None
            \<and> withDocumentsAI g = Some wd
            \<and> wd_clear_memory lib wd = (None, wd')
            \<and> withoutDocumentsAI g = Some w
            \<and> oa_cb g = Some spent"
  then have "clear_conversation lib g =
     (None,
      g\<lparr>withDocumentsAI := Some wd', withoutDocumentsAI := Some (w\<lparr>memory := []\<rparr>)\<rparr>,
      [JObj [(''cmd'', JStr ''DID_CLEAR_CONVERSATION''),
             (''data'', JObj [(''total_cost'', JFloat spent)])]])"
    by (simp add: clear_conversation_ready)
  with a show "handle_module_input lib settings_file g data =
                (None,
                 g\<lparr>withDocumentsAI := Some wd',
                   withoutDocumentsAI := Some (w\<lparr>memory := []\<rparr>)\<rparr>,
                 [JObj [(''cmd'', JStr ''DID_CLEAR_CONVERSATION''),
                        (''data'', JObj [(''total_cost'', JFloat spent)])]])"
    unfolding handle_clear_conversation [OF assms]
    by (auto simp: check_credentials_dict)
qed


text \<open>
  Both without-documents wrappers hold a conversation; only the memory of the first is emptied.
\<close>

theorem clear_conversation_changes_two_wrappers_only_witness:
  "handle_module_input example_lib example_settings
     (example_globals
        \<lparr>withoutDocumentsAI :=
           Some (example_wrapper\<lparr>memory := [Human (JStr ''Q''), AI ''A reply.'']\<rparr>),
         withoutDocumentsSingleQuery :=
           Some (example_wrapper\<lparr>memory := [Human (JStr ''T''), AI ''An explanation.'']\<rparr>),
         oa_cb := Some (1 / 250)\<rparr>)
     (JObj [(''cmd'', JStr ''CLEAR_CONVERSATION'')]) =
   (None,
    example_globals
        \<lparr>withoutDocumentsAI := Some (example_wrapper\<lparr>memory := []\<rparr>),
         withoutDocumentsSingleQuery :=
           Some (example_wrapper\<lparr>memory := [Human (JStr ''T''), AI ''An explanation.'']\<rparr>),
         oa_cb := Some (1 / 250)\<rparr>,
    [JObj [(''cmd'', JStr ''DID_CLEAR_CONVERSATION''),
           (''data'', JObj [(''total_cost'', JFloat (1 / 250))])]])"
proof -
  have h: "subscript (JObj [(''cmd'', JStr ''CLEAR_CONVERSATION'')]) ''cmd'' =
             Inr (JStr ''CLEAR_CONVERSATION'')"
    by simp
  have s: "example_settings =
             Inr (JObj [(''temperature'', JInt 0), (''llmModel'', JStr ''gpt-3.5-turbo'')])"
    by (simp add: example_settings_def)
  have p: "configured_provider [(''temperature'', JInt 0), (''llmModel'', JStr ''gpt-3.5-turbo'')] = OPENAI"
    by (simp add: configured_provider_def)
  show ?thesis
    using clear_conversation_changes_two_wrappers_only [OF h,
        where lib = example_lib and settings_file = example_settings
          and settings = "[(''temperature'', JInt 0), (''llmModel'', JStr ''gpt-3.5-turbo'')]"
          and g = "example_globals
              \<lparr>withoutDocumentsAI :=
                 Some (example_wrapper\<lparr>memory := [Human (JStr ''Q''), AI ''A reply.'']\<rparr>),
               withoutDocumentsSingleQuery :=
                 Some (example_wrapper\<lparr>memory := [Human (JStr ''T''), AI ''An explanation.'']\<rparr>),
               oa_cb := Some (1 / 250)\<rparr>"
          and wd = "[]" and wd' = "[]"
          and w = "example_wrapper\<lparr>memory := [Human (JStr ''Q''), AI ''A reply.'']\<rparr>"
          and spent = "1 / 250"] s p
    by (simp add: example_globals_def example_env_def example_lib_fields)
qed

section \<open>Asking after a clear\<close>

lemma ask_no_documents_turn:
  assumes "strip line \<noteq> []"
    and "json_loads lib (strip line) = Inr (JObj d)"
    and "map_of d ''cmd'' = Some (JStr ''ASK_CONVERSATION_NO_DOCUMENTS'')"
    and "map_of d ''query'' = Some q"
    and "settings_file = Inr (JObj settings)"
    and "os_environ g (credential_env_var (configured_provider settings)) \<noteq> None"
    and "withoutDocumentsAI g = Some w"
    and "oa_cb g = Some spent"
    and "predict lib (chain_request w q) = (r, c)"
  shows "loop_iteration lib g (settings_file, line) =
     (g\<lparr>withoutDocumentsAI :=
          Some (case r of Inl e \<Rightarrow> w | Inr reply \<Rightarrow> w\<lparr>memory := memory w @ [Human q, AI reply]\<rparr>),
        oa_cb := Some (spent + c),
        sent := sent g @ [chain_request w q]\<rparr>,
      [case r of
         Inl e \<Rightarrow> JObj [(''cmd'', JStr ''SUBMODULE_ERROR''),
                        (''data'', JObj [(''error'', JStr (str_exn lib e))])]
       | Inr reply \<Rightarrow> JObj [(''cmd'', JStr ''DID_ASK_CONVERSATION_NO_DOCUMENTS''),
                            (''data'', JObj [(''response'', JStr reply),
                                             (''total_cost'', JFloat (spent + c))])]])"
proof -
  have nonempty: "d \<noteq> []"
    using assms(3) by auto
  have creds: "check_credentials (os_environ g) settings_file = Inr (True, [])"
    using assms(5,6) by (simp add: check_credentials_dict)
  have branch: "ask_conversation_no_documents lib g (JObj d) =
     (case r of Inl e \<Rightarrow> Some e | Inr reply \<Rightarrow> None,
      g\<lparr>withoutDocumentsAI :=
          Some (case r of Inl e \<Rightarrow> w | Inr reply \<Rightarrow> w\<lparr>memory := memory w @ [Human q, AI reply]\<rparr>),
        oa_cb := Some (spent + c),
        sent := sent g @ [chain_request w q]\<rparr>,
      case r of
         Inl e \<Rightarrow> []
       | Inr reply \<Rightarrow> [JObj [(''cmd'', JStr ''DID_ASK_CONVERSATION_NO_DOCUMENTS''),
                            (''data'', JObj [(''response'', JStr reply),
                                             (''total_cost'', JFloat (spent + c))])]])"
    using assms(4,7,8,9)
    by (cases r)
       (simp_all add: ask_conversation_no_documents_def human_message_def add_cost_def
          raising_def returning_def module_return_def private_module_return_def)
  have "handle_module_input lib settings_file g (JObj d) =
          ask_conversation_no_documents lib g (JObj d)"
    using assms(3) creds
    by (simp add: handle_module_input_def and_then_def IC_members_def split: prod.splits)
  with branch show ?thesis
    using assms(1,2) nonempty
    by (cases r) (simp_all add: loop_iteration_def module_error_line)
qed

lemma clear_conversation_turn:
  assumes "strip line \<noteq> []"
    and "json_loads lib (strip line) = Inr (JObj d)"
    and "map_of d ''cmd'' = Some (JStr ''CLEAR_CONVERSATION'')"
    and "settings_file = Inr (JObj settings)"
    and "os_environ g (credential_env_var (configured_provider settings)) \<noteq> None"
    and "withDocumentsAI g = Some wd"
    and "wd_clear_memory lib wd = (None, wd')"
    and "withoutDocumentsAI g = Some w"
    and "oa_cb g = Some spent"
  shows "loop_iteration lib g (settings_file, line) =
     (g\<lparr>withDocumentsAI := Some wd', withoutDocumentsAI := Some (w\<lparr>memory := []\<rparr>)\<rparr>,
      [JObj [(''cmd'', JStr ''DID_CLEAR_CONVERSATION''),
             (''data'', JObj [(''total_cost'', JFloat spent)])]])"
proof -
  have nonempty: "d \<noteq> []"
    using assms(3) by auto
  have creds: "check_credentials (os_environ g) settings_file = Inr (True, [])"
    using assms(4,5) by (simp add: check_credentials_dict)
  have "handle_module_input lib settings_file g (JObj d) = clear_conversation lib g"
    using assms(3) creds
    by (simp add: handle_module_input_def and_then_def IC_members_def split: prod.splits)
  then show ?thesis
    using assms(1,2) nonempty clear_conversation_ready [OF assms(6,7,8,9)]
    by (simp add: loop_iteration_def)
qed


text \<open>
  C7: for every wrapper, whatever its memory holds, \<open>clear_memory\<close> leaves the memory
  empty, and the request \<open>human_message\<close> then sends for \<^verbatim>\<open>X\<close> has no prior turn.
  In the loop, with the credentials set, the wrappers bound and \<^verbatim>\<open>clear_memory\<close> of
  the with-documents wrapper returning, the three lines \<^verbatim>\<open>ASK_CONVERSATION_NO_DOCUMENTS\<close>,
  \<^verbatim>\<open>CLEAR_CONVERSATION\<close>, \<^verbatim>\<open>ASK_CONVERSATION_NO_DOCUMENTS\<close> print exactly three
  lines in that order: the answer to the first question (or the error of its model
  call), \<^verbatim>\<open>DID_CLEAR_CONVERSATION\<close>, and the answer to the second question (or its
  error); two requests are sent, and the second has an empty history, so the first turn
  is not in it.
\<close>

theorem clear_then_ask_sends_no_history:
  assumes "strip l1 \<noteq> []"
    and "json_loads lib (strip l1) = Inr (JObj d1)"
    and "map_of d1 ''cmd'' = Some (JStr ''ASK_CONVERSATION_NO_DOCUMENTS'')"
    and "map_of d1 ''query'' = Some q1"
    and "strip l2 \<noteq> []"
    and "json_loads lib (strip l2) = Inr (JObj d2)"
    and "map_of d2 ''cmd'' = Some (JStr ''CLEAR_CONVERSATION'')"
    and "strip l3 \<noteq> []"
    and "json_loads lib (strip l3) = Inr (JObj d3)"
    and "map_of d3 ''cmd'' = Some (JStr ''ASK_CONVERSATION_NO_DOCUMENTS'')"
    and "map_of d3 ''query'' = Some q3"
    and "settings_file = Inr (JObj settings)"
    and "os_environ g (credential_env_var (configured_provider settings)) \<noteq> None"
    and "withDocumentsAI g = Some wd"
    and "wd_clear_memory lib wd = (None, wd')"
    and "withoutDocumentsAI g = Some w"
    and "oa_cb g = Some spent"
    and "predict lib (chain_request w q1) = (r1, c1)"
    and "predict lib \<lparr>req_llm = llm w, req_history = [], req_input = q3\<rparr> = (r3, c3)"
  shows "memory (clear_memory w0) = []
       \<and> chain_request (clear_memory w0) x =
           \<lparr>req_llm = llm w0, req_history = [], req_input = x\<rparr>
       \<and> human_message lib (clear_memory w0) x =
           (case predict lib \<lparr>req_llm = llm w0, req_history = [], req_input = x\<rparr> of
              (Inl e, c) \<Rightarrow> (Inl e, w0\<lparr>memory := []\<rparr>, c)
            | (Inr reply, c) \<Rightarrow>
                (Inr (reply, JNull), w0\<lparr>memory := [Human x, AI reply]\<rparr>, c))
       \<and> snd (main_loop lib g [(settings_file, l1), (settings_file, l2), (settings_file, l3)]) =
           [case r1 of
              Inl e \<Rightarrow> JObj [(''cmd'', JStr ''SUBMODULE_ERROR''),
                             (''data'', JObj [(''error'', JStr (str_exn lib e))])]
            | Inr reply \<Rightarrow> JObj [(''cmd'', JStr ''DID_ASK_CONVERSATION_NO_DOCUMENTS''),
                                 (''data'', JObj [(''response'', JStr reply),
                                                  (''total_cost'', JFloat (spent + c1))])],
            JObj [(''cmd'', JStr ''DID_CLEAR_CONVERSATION''),
                  (''data'', JObj [(''total_cost'', JFloat (spent + c1))])],
            case r3 of
              Inl e \<Rightarrow> JObj [(''cmd'', JStr ''SUBMODULE_ERROR''),
                             (''data'', JObj [(''error'', JStr (str_exn lib e))])]
            | Inr reply \<Rightarrow> JObj [(''cmd'', JStr ''DID_ASK_CONVERSATION_NO_DOCUMENTS''),
                                 (''data'', JObj [(''response'', JStr reply),
                                                  (''total_cost'', JFloat (spent + c1 + c3))])]]
       \<and> sent (fst (main_loop lib g
                        [(settings_file, l1), (settings_file, l2), (settings_file, l3)])) =
           sent g @ [chain_request w q1,
                     \<lparr>req_llm = llm w, req_history = [], req_input = q3\<rparr>]"
proof -
  define w1 where
    "w1 = (case r1 of Inl e \<Rightarrow> w | Inr reply \<Rightarrow> w\<lparr>memory := memory w @ [Human q1, AI reply]\<rparr>)"
  define g1 where
    "g1 = g\<lparr>withoutDocumentsAI := Some w1, oa_cb := Some (spent + c1),
             sent := sent g @ [chain_request w q1]\<rparr>"
  define g2 where
    "g2 = g1\<lparr>withDocumentsAI := Some wd', withoutDocumentsAI := Some (w1\<lparr>memory := []\<rparr>)\<rparr>"
  define a1 where
    "a1 = (case r1 of
              Inl e \<Rightarrow> JObj [(''cmd'', JStr ''SUBMODULE_ERROR''),
                             (''data'', JObj [(''error'', JStr (str_exn lib e))])]
            | Inr reply \<Rightarrow> JObj [(''cmd'', JStr ''DID_ASK_CONVERSATION_NO_DOCUMENTS''),
                                 (''data'', JObj [(''response'', JStr reply),
                                                  (''total_cost'', JFloat (spent + c1))])])"
  have llm1: "llm w1 = llm w"
    by (cases r1) (simp_all add: w1_def)
  have req3: "chain_request (w1\<lparr>memory := []\<rparr>) q3 =
                \<lparr>req_llm = llm w, req_history = [], req_input = q3\<rparr>"
    by (simp add: chain_request_def llm1)
  have t1: "loop_iteration lib g (settings_file, l1) = (g1, [a1])"
    unfolding g1_def w1_def a1_def
    by (rule ask_no_documents_turn [OF assms(1,2,3,4,12,13,16,17,18)])
  have env1: "os_environ g1 (credential_env_var (configured_provider settings)) \<noteq> None"
    using assms(13) by (simp add: g1_def)
  have t2: "loop_iteration lib g1 (settings_file, l2) =
      (g2, [JObj [(''cmd'', JStr ''DID_CLEAR_CONVERSATION''),
                  (''data'', JObj [(''total_cost'', JFloat (spent + c1))])]])"
    unfolding g2_def
    by (rule clear_conversation_turn [OF assms(5,6,7,12) env1 _ assms(15)])
       (simp_all add: g1_def assms(14))
  have env2: "os_environ g2 (credential_env_var (configured_provider settings)) \<noteq> None"
    using assms(13) by (simp add: g2_def g1_def)
  have p3: "predict lib (chain_request (w1\<lparr>memory := []\<rparr>) q3) = (r3, c3)"
    unfolding req3 by (rule assms(19))
  have t3: "loop_iteration lib g2 (settings_file, l3) =
     (g2\<lparr>withoutDocumentsAI :=
          Some (case r3 of Inl e \<Rightarrow> w1\<lparr>memory := []\<rparr>
                | Inr reply \<Rightarrow> (w1\<lparr>memory := []\<rparr>)
                      \<lparr>memory := memory (w1\<lparr>memory := []\<rparr>) @ [Human q3, AI reply]\<rparr>),
        oa_cb := Some (spent + c1 + c3),
        sent := sent g2 @ [chain_request (w1\<lparr>memory := []\<rparr>) q3]\<rparr>,
      [case r3 of
         Inl e \<Rightarrow> JObj [(''cmd'', JStr ''SUBMODULE_ERROR''),
                        (''data'', JObj [(''error'', JStr (str_exn lib e))])]
       | Inr reply \<Rightarrow> JObj [(''cmd'', JStr ''DID_ASK_CONVERSATION_NO_DOCUMENTS''),
                            (''data'', JObj [(''response'', JStr reply),
                                             (''total_cost'', JFloat (spent + c1 + c3))])]])"
    by (rule ask_no_documents_turn [OF assms(8,9,10,11,12) env2 _ _ p3])
       (simp_all add: g2_def g1_def)
  have run: "main_loop lib g [(settings_file, l1), (settings_file, l2), (settings_file, l3)] =
     (g2\<lparr>withoutDocumentsAI :=
          Some (case r3 of Inl e \<Rightarrow> w1\<lparr>memory := []\<rparr>
                | Inr reply \<Rightarrow> (w1\<lparr>memory := []\<rparr>)
                      \<lparr>memory := memory (w1\<lparr>memory := []\<rparr>) @ [Human q3, AI reply]\<rparr>),
        oa_cb := Some (spent + c1 + c3),
        sent := sent g2 @ [chain_request (w1\<lparr>memory := []\<rparr>) q3]\<rparr>,
      [a1,
       JObj [(''cmd'', JStr ''DID_CLEAR_CONVERSATION''),
             (''data'', JObj [(''total_cost'', JFloat (spent + c1))])],
       case r3 of
         Inl e \<Rightarrow> JObj [(''cmd'', JStr ''SUBMODULE_ERROR''),
                        (''data'', JObj [(''error'', JStr (str_exn lib e))])]
       | Inr reply \<Rightarrow> JObj [(''cmd'', JStr ''DID_ASK_CONVERSATION_NO_DOCUMENTS''),
                            (''data'', JObj [(''response'', JStr reply),
                                             (''total_cost'', JFloat (spent + c1 + c3))])]])"
    by (simp add: t1 t2 t3)
  have sent2: "sent g2 = sent g @ [chain_request w q1]"
    by (simp add: g2_def g1_def)
  show ?thesis
    unfolding run
    by (simp add: llm1 sent2 a1_def clear_memory_def chain_request_def human_message_def
        split: prod.splits sum.splits)
qed


text \<open>
  A wrapper that already holds one exchange: the first request carries it, the request
  after the clear carries nothing.
\<close>

theorem clear_then_ask_sends_no_history_witness:
  "snd (main_loop example_lib
     (example_globals
        \<lparr>withoutDocumentsAI :=
           Some (example_wrapper\<lparr>memory := [Human (JStr ''Q''), AI ''A reply.'']\<rparr>)\<rparr>)
     [(example_settings, line_ask_1), (example_settings, line_clear),
      (example_settings, line_ask_2)]) =
    [JObj [(''cmd'', JStr ''DID_ASK_CONVERSATION_NO_DOCUMENTS''),
           (''data'', JObj [(''response'', JStr ''A reply.''),
                            (''total_cost'', JFloat (1 / 500))])],
     JObj [(''cmd'', JStr ''DID_CLEAR_CONVERSATION''),
           (''data'', JObj [(''total_cost'', JFloat (1 / 500))])],
     JObj [(''cmd'', JStr ''DID_ASK_CONVERSATION_NO_DOCUMENTS''),
           (''data'', JObj [(''response'', JStr ''A reply.''),
                            (''total_cost'', JFloat (1 / 250))])]]
   \<and> sent (fst (main_loop example_lib
     (example_globals
        \<lparr>withoutDocumentsAI :=
           Some (example_wrapper\<lparr>memory := [Human (JStr ''Q''), AI ''A reply.'']\<rparr>)\<rparr>)
     [(example_settings, line_ask_1), (example_settings, line_clear),
      (example_settings, line_ask_2)])) =
    [\<lparr>req_llm = llm example_wrapper,
       req_history = [Human (JStr ''Q''), AI ''A reply.''],
       req_input = JStr ''What is a cell?''\<rparr>,
     \<lparr>req_llm = llm example_wrapper, req_history = [], req_input = JStr ''X''\<rparr>]"
proof -
  let ?g = "example_globals
        \<lparr>withoutDocumentsAI :=
           Some (example_wrapper\<lparr>memory := [Human (JStr ''Q''), AI ''A reply.'']\<rparr>)\<rparr>"
  let ?w = "example_wrapper\<lparr>memory := [Human (JStr ''Q''), AI ''A reply.'']\<rparr>"
  let ?t = "[(''temperature'', JInt 0), (''llmModel'', JStr ''gpt-3.5-turbo'')]"
  have l1: "strip line_ask_1 \<noteq> []" and l2: "strip line_clear \<noteq> []"
    and l3: "strip line_ask_2 \<noteq> []"
    by (simp_all add: example_lines_strip example_lines_nonempty)
  have d1: "json_loads example_lib (strip line_ask_1) =
      Inr (JObj [(''cmd'', JStr ''ASK_CONVERSATION_NO_DOCUMENTS''),
                 (''query'', JStr ''What is a cell?'')])"
    and d2: "json_loads example_lib (strip line_clear) =
      Inr (JObj [(''cmd'', JStr ''CLEAR_CONVERSATION'')])"
    and d3: "json_loads example_lib (strip line_ask_2) =
      Inr (JObj [(''cmd'', JStr ''ASK_CONVERSATION_NO_DOCUMENTS''), (''query'', JStr ''X'')])"
    by (simp_all add: example_lines_strip example_lines_loads example_lib_fields)
  have s: "example_settings = Inr (JObj ?t)"
    by (simp add: example_settings_def)
  have p: "os_environ ?g (credential_env_var (configured_provider ?t)) \<noteq> None"
    by (simp add: configured_provider_def example_globals_def example_env_def)
  have wd: "withDocumentsAI ?g = Some []" and cl: "wd_clear_memory example_lib [] = (None, [])"
    and w: "withoutDocumentsAI ?g = Some ?w" and cb: "oa_cb ?g = Some 0"
    by (simp_all add: example_globals_def example_lib_fields)
  have p1: "predict example_lib (chain_request ?w (JStr ''What is a cell?'')) =
              (Inr ''A reply.'', 1 / 500)"
    and p3: "predict example_lib \<lparr>req_llm = llm ?w, req_history = [], req_input = JStr ''X''\<rparr> =
              (Inr ''A reply.'', 1 / 500)"
    by (simp_all add: example_lib_fields)
  note inst = clear_then_ask_sends_no_history [OF l1 d1 _ _ l2 d2 _ l3 d3 _ _ s p wd cl w cb p1 p3,
      simplified]
  show ?thesis
    using inst by (simp add: chain_request_def example_globals_def)
qed

section \<open>The total cost on the printed lines\<close>

lemma map_of_dict_set: "map_of (dict_set d k v) k = Some v"
  by (induction d k v rule: dict_set.induct) simp_all

lemma module_error_ok: "l \<in> set (module_error text) \<Longrightarrow> line_ok c l"
  by (simp add: module_error_line line_ok_def error_line_def)

lemma IC_value_not_error: "cmd \<noteq> SUBMODULE_ERROR \<Longrightarrow> IC_value cmd \<noteq> ''SUBMODULE_ERROR''"
  by (cases cmd) simp_all

lemma good_raising:
  "good_outcome c (raising e g) = (\<exists>c'. oa_cb g = Some c' \<and> c \<le> c')"
  by (simp add: good_outcome_def raising_def good_def)

lemma good_returning:
  "cmd \<noteq> SUBMODULE_ERROR \<Longrightarrow>
   good_outcome c (returning g cmd data) = (\<exists>c'. oa_cb g = Some c' \<and> c \<le> c')"
  by (auto simp: good_outcome_def returning_def module_return_def private_module_return_def
      good_def line_ok_def costed_line_def map_of_dict_set IC_value_not_error
      split: option.splits)

lemma good_silent:
  "good_outcome c (None, g, []) = (\<exists>c'. oa_cb g = Some c' \<and> c \<le> c')"
  by (simp add: good_outcome_def good_def)

lemma oa_cb_add_cost: "oa_cb g = Some c \<Longrightarrow> oa_cb (add_cost x g) = Some (c + x)"
  by (simp add: add_cost_def)


lemma oa_cb_update [simp]:
  "oa_cb (g\<lparr>withDocumentsAI := x\<rparr>) = oa_cb g"
  "oa_cb (g\<lparr>withoutDocumentsAI := y\<rparr>) = oa_cb g"
  "oa_cb (g\<lparr>withoutDocumentsSingleQuery := y\<rparr>) = oa_cb g"
  "oa_cb (g\<lparr>sent := z\<rparr>) = oa_cb g"
  by simp_all

lemma cost_predict:
  "costs_never_negative lib \<Longrightarrow> predict lib req = (r, c) \<Longrightarrow> 0 \<le> c"
  by (auto simp: costs_never_negative_def dest: spec [where x = req])

lemma cost_explain_topic:
  "costs_never_negative lib \<Longrightarrow> explain_topic lib w topic options = (r, w', c) \<Longrightarrow> 0 \<le> c"
  unfolding costs_never_negative_def by (metis snd_conv)

lemma cost_generate_cards:
  "costs_never_negative lib \<Longrightarrow> generate_cards lib w text options = (r, w', c) \<Longrightarrow> 0 \<le> c"
  unfolding costs_never_negative_def by (metis snd_conv)

lemma cost_wd_human_message:
  "costs_never_negative lib \<Longrightarrow> wd_human_message lib wd query = (r, wd', c) \<Longrightarrow> 0 \<le> c"
  unfolding costs_never_negative_def by (metis snd_conv)

lemma cost_wd_explain_topic:
  "costs_never_negative lib \<Longrightarrow> wd_explain_topic lib wd topic options = (r, wd', c) \<Longrightarrow> 0 \<le> c"
  unfolding costs_never_negative_def by (metis snd_conv)

lemma cost_wd_add_document_from_path:
  "costs_never_negative lib \<Longrightarrow> wd_add_document_from_path lib wd docpath = (r, wd', c) \<Longrightarrow> 0 \<le> c"
  unfolding costs_never_negative_def by (metis snd_conv)

lemma cost_wd_split_document:
  "costs_never_negative lib \<Longrightarrow> wd_split_document lib wd path = (r, wd', c) \<Longrightarrow> 0 \<le> c"
  unfolding costs_never_negative_def by (metis snd_conv)

lemma cost_human_message:
  "costs_never_negative lib \<Longrightarrow> human_message lib w query = (r, w', c) \<Longrightarrow> 0 \<le> c"
  by (auto simp: human_message_def split: prod.splits sum.splits dest: cost_predict)

lemmas good_simps = good_raising good_returning good_silent oa_cb_add_cost Let_def

lemma good_ask_conversation_documents:
  "costs_never_negative lib \<Longrightarrow> oa_cb g = Some c \<Longrightarrow>
   good_outcome c (ask_conversation_documents lib g data)"
  by (auto simp: ask_conversation_documents_def good_simps
      split: option.splits sum.splits prod.splits dest: cost_wd_human_message)

lemma good_ask_conversation_no_documents:
  "costs_never_negative lib \<Longrightarrow> oa_cb g = Some c \<Longrightarrow>
   good_outcome c (ask_conversation_no_documents lib g data)"
  by (auto simp: ask_conversation_no_documents_def good_simps
      split: option.splits sum.splits prod.splits dest: cost_human_message)

lemma good_explain_topic_cmd:
  "costs_never_negative lib \<Longrightarrow> oa_cb g = Some c \<Longrightarrow>
   good_outcome c (explain_topic_cmd lib g data)"
  by (auto simp: explain_topic_cmd_def good_simps
      split: option.splits sum.splits prod.splits if_splits
      dest: cost_wd_explain_topic cost_explain_topic)

lemma good_clear_conversation:
  "oa_cb g = Some c \<Longrightarrow> good_outcome c (clear_conversation lib g)"
  by (auto simp: clear_conversation_def good_simps
      split: option.splits sum.splits prod.splits)

lemma good_delete_all_documents:
  "oa_cb g = Some c \<Longrightarrow> good_outcome c (delete_all_documents lib g)"
  by (auto simp: delete_all_documents_def good_simps
      split: option.splits sum.splits prod.splits)

lemma good_split_document:
  "costs_never_negative lib \<Longrightarrow> oa_cb g = Some c \<Longrightarrow>
   good_outcome c (split_document lib g data)"
  by (auto simp: split_document_def good_simps
      split: option.splits sum.splits prod.splits dest: cost_wd_split_document)


lemma good_append_error:
  "good c g printed \<Longrightarrow> good c g (printed @ module_error text)"
  by (auto simp: good_def module_error_ok)

lemma good_generate_cards_cmd:
  assumes "costs_never_negative lib" and "oa_cb g = Some c"
  shows "good_outcome c (generate_cards_cmd lib g data)"
proof (cases "generate_cards_fields data")
  case (Inl e)
  then show ?thesis
    using assms(2) by (simp add: generate_cards_cmd_def good_simps)
next
  case (Inr fields)
  obtain card_text options where f: "fields = (card_text, options)"
    by (cases fields) auto
  define inner where "inner =
    (case withoutDocumentsSingleQuery g of
       None \<Rightarrow> raising (NameError ''withoutDocumentsSingleQuery'') g
     | Some w \<Rightarrow>
         (case generate_cards lib w card_text options of
            (r, w', cost) \<Rightarrow>
              (let g' = add_cost cost (g\<lparr>withoutDocumentsSingleQuery := Some w'\<rparr>)
               in case r of
                    Inl e \<Rightarrow> raising e g'
                  | Inr cards_raw_string \<Rightarrow>
                      returning g' DID_GENERATE_CARDS
                        [(''cardsRawString'', cards_raw_string)])))"
  have inner_good: "good_outcome c inner"
    using assms
    by (auto simp: inner_def good_simps split: option.splits sum.splits prod.splits
        dest: cost_generate_cards)
  obtain r g' printed where i: "inner = (r, g', printed)"
    by (cases inner) auto
  have "generate_cards_cmd lib g data =
          (case inner of
             (Some e, g', printed) \<Rightarrow> (None, g', printed @ module_error (str_exn lib e))
           | (None, g', printed) \<Rightarrow> (None, g', printed))"
    by (simp add: generate_cards_cmd_def Inr f inner_def)
  with inner_good i show ?thesis
    by (cases r) (simp_all add: good_outcome_def good_append_error)
qed

lemma add_documents_from_paths_cost:
  "costs_never_negative lib \<Longrightarrow> oa_cb g = Some c \<Longrightarrow>
   add_documents_from_paths lib g docpaths = (r, g') \<Longrightarrow>
   \<exists>c'. oa_cb g' = Some c' \<and> c \<le> c'"
proof (induction docpaths arbitrary: g c)
  case Nil
  then show ?case by simp
next
  case (Cons docpath docpaths)
  show ?case
  proof (cases "withDocumentsAI g")
    case None
    with Cons.prems show ?thesis by auto
  next
    case (Some wd)
    obtain r0 wd' cost where call: "wd_add_document_from_path lib wd docpath = (r0, wd', cost)"
      by (cases "wd_add_document_from_path lib wd docpath") auto
    have pos: "0 \<le> cost"
      using Cons.prems(1) call by (rule cost_wd_add_document_from_path)
    let ?g = "add_cost cost (g\<lparr>withDocumentsAI := Some wd'\<rparr>)"
    have cb: "oa_cb ?g = Some (c + cost)"
      using Cons.prems(2) by (simp add: oa_cb_add_cost)
    show ?thesis
    proof (cases r0)
      case None
      with Cons.prems(3) Some call
      have "add_documents_from_paths lib ?g docpaths = (r, g')"
        by simp
      from Cons.IH [OF Cons.prems(1) cb this] pos show ?thesis
        by auto
    next
      case (Some e)
      with Cons.prems(3) \<open>withDocumentsAI g = Some wd\<close> call have "g' = ?g"
        by simp
      with cb pos show ?thesis by simp
    qed
  qed
qed

lemma good_add_documents:
  assumes "costs_never_negative lib" and "oa_cb g = Some c"
  shows "good_outcome c (add_documents lib g data)"
proof -
  have "good_outcome c
          (case add_documents_from_paths lib g docpaths of
             (Some e, g') \<Rightarrow> raising e g'
           | (None, g') \<Rightarrow> returning g' DID_ADD_DOCUMENTS [(''documents_added'', documents)])"
    for docpaths documents
  proof -
    obtain r g' where l: "add_documents_from_paths lib g docpaths = (r, g')"
      by (cases "add_documents_from_paths lib g docpaths") auto
    from add_documents_from_paths_cost [OF assms l] l show ?thesis
      by (cases r) (auto simp: good_simps)
  qed
  then show ?thesis
    using assms(2)
    by (auto simp: add_documents_def good_simps split: sum.splits prod.splits)
qed

lemma good_dispatch:
  assumes "costs_never_negative lib" and "oa_cb g = Some c"
  shows "good_outcome c (dispatch lib g data cmd)"
  using assms
  by (cases cmd)
     (simp_all add: good_ask_conversation_documents good_ask_conversation_no_documents
        good_explain_topic_cmd good_generate_cards_cmd good_clear_conversation
        good_add_documents good_delete_all_documents good_split_document good_silent)

lemma check_credentials_printed:
  "check_credentials env settings_file = Inr (ok, printed) \<Longrightarrow>
   (ok \<and> printed = []) \<or> (\<not> ok \<and> (\<exists>text. printed = module_error text))"
  by (auto simp: check_credentials_def Let_def
      split: sum.splits json.splits LLMProviderType.splits if_splits)

lemma good_handle_module_input:
  assumes "costs_never_negative lib" and "oa_cb g = Some c"
  shows "good_outcome c (handle_module_input lib settings_file g data)"
proof (cases "check_credentials (os_environ g) settings_file")
  case (Inl e)
  then show ?thesis
    using assms(2) by (simp add: handle_module_input_def good_simps)
next
  case (Inr res)
  obtain ok printed where res: "res = (ok, printed)"
    by (cases res) auto
  from check_credentials_printed [OF Inr [unfolded res]]
  show ?thesis
  proof
    assume "ok \<and> printed = []"
    moreover have "good_outcome c (dispatch lib g data cmd)" for cmd
      using assms by (rule good_dispatch)
    ultimately show ?thesis
      using assms(2) Inr res
      by (auto simp: handle_module_input_def good_outcome_def good_def
          split: sum.splits prod.splits)
  next
    assume "\<not> ok \<and> (\<exists>text. printed = module_error text)"
    then show ?thesis
      using assms(2) Inr res
      by (auto simp: handle_module_input_def good_outcome_def good_def module_error_ok)
  qed
qed

lemma good_loop_iteration:
  assumes "costs_never_negative lib" and "oa_cb g = Some c"
  shows "good c (fst (loop_iteration lib g ev)) (snd (loop_iteration lib g ev))"
proof -
  obtain settings_file line where ev: "ev = (settings_file, line)"
    by (cases ev) auto
  have err: "good c g (module_error msg)" for msg
    using assms(2) by (auto simp: good_def module_error_ok)
  have quiet: "good c g []"
    using assms(2) by (simp add: good_def)
  have hm: "handle_module_input lib settings_file g data = (r, h, out) \<Longrightarrow> good c h out"
    for data r h out
    using good_handle_module_input [OF assms(1,2), of settings_file data]
    by (simp add: good_outcome_def)
  show ?thesis
  proof (cases "strip line = []")
    case True
    then show ?thesis by (simp add: ev loop_iteration_def quiet)
  next
    case False
    show ?thesis
    proof (cases "json_loads lib (strip line)")
      case (Inl e)
      with False show ?thesis
        by (cases e) (simp_all add: ev loop_iteration_def err)
    next
      case (Inr input_data)
      obtain r h out where h: "handle_module_input lib settings_file g input_data = (r, h, out)"
        by (cases "handle_module_input lib settings_file g input_data") auto
      from hm [OF h] have "good c h (out @ module_error msg)" for msg
        by (rule good_append_error)
      with False Inr h hm [OF h] show ?thesis
        by (cases r) (simp_all add: ev loop_iteration_def err)
    qed
  qed
qed


lemma printed_cost_ok:
  "line_ok c l \<Longrightarrow> printed_cost l = None \<or> printed_cost l = Some c"
  by (auto simp: line_ok_def error_line_def costed_line_def printed_cost_def)

lemma printed_costs_ok:
  "\<forall>l \<in> set printed. line_ok c l \<Longrightarrow> x \<in> set (printed_costs printed) \<Longrightarrow> x = c"
  by (auto simp: printed_costs_def map_filter_def dest!: printed_cost_ok)

lemma sorted_constant: "\<forall>x \<in> set xs. x = (a::rat) \<Longrightarrow> sorted xs"
  by (induction xs) auto

lemma printed_costs_append:
  "printed_costs (xs @ ys) = printed_costs xs @ printed_costs ys"
  by (simp add: printed_costs_def map_filter_def)

lemma main_loop_costs:
  assumes "costs_never_negative lib" and "oa_cb g = Some c"
  shows "(\<forall>l \<in> set (snd (main_loop lib g evs)). error_line l \<or> (\<exists>x. costed_line x l))
       \<and> sorted (printed_costs (snd (main_loop lib g evs)))
       \<and> (\<exists>c'. oa_cb (fst (main_loop lib g evs)) = Some c' \<and> c \<le> c'
               \<and> (\<forall>x \<in> set (printed_costs (snd (main_loop lib g evs))). c \<le> x \<and> x \<le> c'))"
  using assms(2)
proof (induction evs arbitrary: g c)
  case Nil
  then show ?case by (simp add: printed_costs_def map_filter_def)
next
  case (Cons ev evs)
  obtain g1 p1 where step: "loop_iteration lib g ev = (g1, p1)"
    by (cases "loop_iteration lib g ev") auto
  from good_loop_iteration [OF assms(1) Cons.prems, of ev] step
  obtain c1 where c1: "oa_cb g1 = Some c1" "c \<le> c1" "\<forall>l \<in> set p1. line_ok c1 l"
    by (auto simp: good_def)
  note run = main_loop_step [OF step, of evs]
  from Cons.IH [OF c1(1)] obtain c' where
    rest_lines: "\<forall>l \<in> set (snd (main_loop lib g1 evs)). error_line l \<or> (\<exists>x. costed_line x l)"
    and rest_sorted: "sorted (printed_costs (snd (main_loop lib g1 evs)))"
    and final: "oa_cb (fst (main_loop lib g1 evs)) = Some c'" "c1 \<le> c'"
    and rest_bounds: "\<forall>x \<in> set (printed_costs (snd (main_loop lib g1 evs))). c1 \<le> x \<and> x \<le> c'"
    by blast
  have first_costs: "\<forall>x \<in> set (printed_costs p1). x = c1"
    using c1(3) by (blast dest: printed_costs_ok)
  have lines: "\<forall>l \<in> set (snd (main_loop lib g (ev # evs))). error_line l \<or> (\<exists>x. costed_line x l)"
    unfolding run using c1(3) rest_lines by (auto simp: line_ok_def)
  have srt: "sorted (printed_costs (snd (main_loop lib g (ev # evs))))"
    unfolding run using first_costs rest_sorted rest_bounds
    by (auto simp: printed_costs_append sorted_append intro: sorted_constant)
  have bounds: "\<forall>x \<in> set (printed_costs (snd (main_loop lib g (ev # evs)))). c \<le> x \<and> x \<le> c'"
    unfolding run using first_costs rest_bounds c1(2) final(2)
    by (auto simp: printed_costs_append)
  have fin: "oa_cb (fst (main_loop lib g (ev # evs))) = Some c' \<and> c \<le> c'"
    unfolding run using final c1(2) by simp
  from lines srt bounds fin show ?case by blast
qed

lemma main_loop_append:
  "main_loop lib g (xs @ ys) =
     (fst (main_loop lib (fst (main_loop lib g xs)) ys),
      snd (main_loop lib g xs) @ snd (main_loop lib (fst (main_loop lib g xs)) ys))"
  by (induction xs arbitrary: g) (simp_all split: prod.splits)

lemma module_return_total:
  "oa_cb h = Some c \<Longrightarrow>
   module_return h cmd data =
     Inr [JObj [(''cmd'', JStr (IC_value cmd)),
                (''data'', JObj (dict_set data ''total_cost'' (JFloat c)))]]"
  by (simp add: module_return_def private_module_return_def)

text \<open>
  C3, as the code has it: the total is zero when the loop is entered and is never reset.
  \<open>module_return\<close> puts the total that \<open>oa_cb\<close> holds at that moment under
  \<^verbatim>\<open>total_cost\<close>. A run of the loop is its turns one after the other, and, provided no
  call of a collaborator lowers the total, in every turn of a run the total does not go
  down and every line the turn prints is either an error line, with the tag
  \<^verbatim>\<open>SUBMODULE_ERROR\<close> and no \<^verbatim>\<open>total_cost\<close>, or the response to a command, whose
  \<^verbatim>\<open>total_cost\<close> is the total \<open>oa_cb\<close> holds when the turn ends. So the totals carried,
  in the order printed, are non-decreasing, none is negative, and none exceeds the total
  held when the lines have been processed.
\<close>

theorem total_cost_of_command_responses_non_decreasing:
  assumes "costs_never_negative lib"
  shows "oa_cb (enter_loop g) = Some 0
       \<and> (oa_cb h = Some c
          \<longrightarrow> module_return h cmd data =
                Inr [JObj [(''cmd'', JStr (IC_value cmd)),
                           (''data'', JObj (dict_set data ''total_cost'' (JFloat c)))]]
            \<and> line_total_cost
                (JObj [(''cmd'', JStr (IC_value cmd)),
                       (''data'', JObj (dict_set data ''total_cost'' (JFloat c)))]) =
                Some (JFloat c))
       \<and> main_loop lib (enter_loop g) (before @ ev # after) =
           (fst (main_loop lib
                   (fst (loop_iteration lib (fst (main_loop lib (enter_loop g) before)) ev))
                   after),
            snd (main_loop lib (enter_loop g) before)
              @ snd (loop_iteration lib (fst (main_loop lib (enter_loop g) before)) ev)
              @ snd (main_loop lib
                       (fst (loop_iteration lib (fst (main_loop lib (enter_loop g) before)) ev))
                       after))
       \<and> (\<exists>c0 c1.
             oa_cb (fst (main_loop lib (enter_loop g) before)) = Some c0
             \<and> oa_cb (fst (loop_iteration lib (fst (main_loop lib (enter_loop g) before)) ev)) =
                 Some c1
             \<and> c0 \<le> c1
             \<and> (\<forall>l \<in> set (snd (loop_iteration lib
                                      (fst (main_loop lib (enter_loop g) before)) ev)).
                   error_line l \<or> costed_line c1 l))
       \<and> (\<forall>l \<in> set (snd (main_loop lib (enter_loop g) evs)).
             error_line l \<or> (\<exists>x. costed_line x l))
       \<and> sorted (printed_costs (snd (main_loop lib (enter_loop g) evs)))
       \<and> (\<exists>c'. oa_cb (fst (main_loop lib (enter_loop g) evs)) = Some c'
               \<and> (\<forall>x \<in> set (printed_costs (snd (main_loop lib (enter_loop g) evs))).
                     0 \<le> x \<and> x \<le> c'))"
proof -
  have cb: "oa_cb (enter_loop g) = Some 0"
    by (simp add: enter_loop_def)
  have ret: "oa_cb h = Some c
          \<longrightarrow> module_return h cmd data =
                Inr [JObj [(''cmd'', JStr (IC_value cmd)),
                           (''data'', JObj (dict_set data ''total_cost'' (JFloat c)))]]
            \<and> line_total_cost
                (JObj [(''cmd'', JStr (IC_value cmd)),
                       (''data'', JObj (dict_set data ''total_cost'' (JFloat c)))]) =
                Some (JFloat c)"
    by (simp add: module_return_total map_of_dict_set)
  let ?g1 = "fst (main_loop lib (enter_loop g) before)"
  have split: "main_loop lib (enter_loop g) (before @ ev # after) =
           (fst (main_loop lib (fst (loop_iteration lib ?g1 ev)) after),
            snd (main_loop lib (enter_loop g) before)
              @ snd (loop_iteration lib ?g1 ev)
              @ snd (main_loop lib (fst (loop_iteration lib ?g1 ev)) after))"
    unfolding main_loop_append [of lib "enter_loop g" before "ev # after"]
    by (simp split: prod.splits)
  from main_loop_costs [OF assms cb, of before]
  obtain c0 where c0: "oa_cb ?g1 = Some c0"
    by blast
  from good_loop_iteration [OF assms c0, of ev]
  have turn: "\<exists>c0 c1.
             oa_cb ?g1 = Some c0
             \<and> oa_cb (fst (loop_iteration lib ?g1 ev)) = Some c1
             \<and> c0 \<le> c1
             \<and> (\<forall>l \<in> set (snd (loop_iteration lib ?g1 ev)).
                   error_line l \<or> costed_line c1 l)"
    using c0 by (auto simp: good_def line_ok_def)
  from main_loop_costs [OF assms cb, of evs] cb ret split turn show ?thesis
    by blast
qed

lemma example_costs_never_negative: "costs_never_negative example_lib"
  by (simp add: costs_never_negative_def example_lib_def)

lemma line_not_json_nonempty: "line_not_json \<noteq> []"
  by (simp add: line_not_json_def)

lemma example_run_lines:
  "snd (main_loop example_lib (enter_loop example_globals)
        [(example_settings, line_ask_1), (example_settings, line_not_json),
         (example_settings, line_clear), (example_settings, line_ask_2)]) =
   [JObj [(''cmd'', JStr ''DID_ASK_CONVERSATION_NO_DOCUMENTS''),
          (''data'', JObj [(''response'', JStr ''A reply.''),
                           (''total_cost'', JFloat (1 / 500))])],
    JObj [(''cmd'', JStr ''SUBMODULE_ERROR''),
          (''data'', JObj [(''error'', JStr (''Invalid JSON input: '' @ line_not_json))])],
    JObj [(''cmd'', JStr ''DID_CLEAR_CONVERSATION''),
          (''data'', JObj [(''total_cost'', JFloat (1 / 500))])],
    JObj [(''cmd'', JStr ''DID_ASK_CONVERSATION_NO_DOCUMENTS''),
          (''data'', JObj [(''response'', JStr ''A reply.''),
                           (''total_cost'', JFloat (1 / 250))])]]"
  by (simp add: example_run_defs enter_loop_def strip_line_not_json loads_line_not_json
      line_not_json_nonempty ask_conversation_no_documents_def human_message_def
      chain_request_def add_cost_def clear_conversation_def clear_memory_def)

lemma example_run_printed_costs:
  "printed_costs
     (snd (main_loop example_lib (enter_loop example_globals)
        [(example_settings, line_ask_1), (example_settings, line_not_json),
         (example_settings, line_clear), (example_settings, line_ask_2)])) =
   [1 / 500, 1 / 500, 1 / 250]"
  unfolding example_run_lines
  by (simp add: printed_costs_def map_filter_simps printed_cost_def)

text \<open>
  A question, a line that is not JSON, a clear and a second question: three totals; the
  clear prints the total the question before it left.
\<close>

theorem total_cost_of_command_responses_non_decreasing_witness:
  "costs_never_negative example_lib
   \<and> module_return (enter_loop example_globals) DID_CLEAR_CONVERSATION [] =
       Inr [JObj [(''cmd'', JStr ''DID_CLEAR_CONVERSATION''),
                  (''data'', JObj [(''total_cost'', JFloat 0)])]]
   \<and> (\<exists>c0 c1.
         oa_cb (fst (main_loop example_lib (enter_loop example_globals)
                       [(example_settings, line_ask_1)])) = Some c0
         \<and> oa_cb (fst (loop_iteration example_lib
                          (fst (main_loop example_lib (enter_loop example_globals)
                                  [(example_settings, line_ask_1)]))
                          (example_settings, line_clear))) = Some c1
         \<and> c0 \<le> c1
         \<and> (\<forall>l \<in> set (snd (loop_iteration example_lib
                                  (fst (main_loop example_lib (enter_loop example_globals)
                                          [(example_settings, line_ask_1)]))
                                  (example_settings, line_clear))).
               error_line l \<or> costed_line c1 l))
   \<and> sorted (printed_costs
        (snd (main_loop example_lib (enter_loop example_globals)
           [(example_settings, line_ask_1), (example_settings, line_not_json),
            (example_settings, line_clear), (example_settings, line_ask_2)])))
   \<and> printed_costs
        (snd (main_loop example_lib (enter_loop example_globals)
           [(example_settings, line_ask_1), (example_settings, line_not_json),
            (example_settings, line_clear), (example_settings, line_ask_2)])) =
       [1 / 500, 1 / 500, 1 / 250]"
proof (intro conjI)
  note inst = total_cost_of_command_responses_non_decreasing [OF example_costs_never_negative,
      where g = example_globals and h = "enter_loop example_globals" and c = 0
        and cmd = DID_CLEAR_CONVERSATION and data = "[]"
        and before = "[(example_settings, line_ask_1)]"
        and ev = "(example_settings, line_clear)" and after = "[]"
        and evs = "[(example_settings, line_ask_1), (example_settings, line_not_json),
            (example_settings, line_clear), (example_settings, line_ask_2)]"]
  show "costs_never_negative example_lib"
    by (rule example_costs_never_negative)
  show "module_return (enter_loop example_globals) DID_CLEAR_CONVERSATION [] =
       Inr [JObj [(''cmd'', JStr ''DID_CLEAR_CONVERSATION''),
                  (''data'', JObj [(''total_cost'', JFloat 0)])]]"
    using inst by simp
  show "\<exists>c0 c1.
         oa_cb (fst (main_loop example_lib (enter_loop example_globals)
                       [(example_settings, line_ask_1)])) = Some c0
         \<and> oa_cb (fst (loop_iteration example_lib
                          (fst (main_loop example_lib (enter_loop example_globals)
                                  [(example_settings, line_ask_1)]))
                          (example_settings, line_clear))) = Some c1
         \<and> c0 \<le> c1
         \<and> (\<forall>l \<in> set (snd (loop_iteration example_lib
                                  (fst (main_loop example_lib (enter_loop example_globals)
                                          [(example_settings, line_ask_1)]))
                                  (example_settings, line_clear))).
               error_line l \<or> costed_line c1 l)"
    using inst by blast
  show "sorted (printed_costs
        (snd (main_loop example_lib (enter_loop example_globals)
           [(example_settings, line_ask_1), (example_settings, line_not_json),
            (example_settings, line_clear), (example_settings, line_ask_2)])))"
    using inst by blast
  show "printed_costs
        (snd (main_loop example_lib (enter_loop example_globals)
           [(example_settings, line_ask_1), (example_settings, line_not_json),
            (example_settings, line_clear), (example_settings, line_ask_2)])) =
       [1 / 500, 1 / 500, 1 / 250]"
    by (rule example_run_printed_costs)
qed

text \<open>
  C3 as stated fails: the \<^verbatim>\<open>SUBMODULE_ERROR\<close> line printed for a line that is not
  JSON has only \<^verbatim>\<open>error\<close> in its payload, and no \<^verbatim>\<open>total_cost\<close>.
\<close>

theorem error_response_without_total_cost_counterexample:
  "loop_iteration example_lib (enter_loop example_globals) (example_settings, line_not_json) =
     (enter_loop example_globals,
      [JObj [(''cmd'', JStr ''SUBMODULE_ERROR''),
             (''data'', JObj [(''error'', JStr (''Invalid JSON input: '' @ line_not_json))])]])
   \<and> line_total_cost
        (JObj [(''cmd'', JStr ''SUBMODULE_ERROR''),
               (''data'', JObj [(''error'', JStr (''Invalid JSON input: '' @ line_not_json))])]) =
       None"
  by (simp add: loop_iteration_def strip_line_not_json loads_line_not_json example_lib_fields
      module_error_line)
     (simp add: line_not_json_def)

section \<open>The lines of the start-up\<close>

lemma status_success_line: "status_success = [JObj [(''status'', JStr ''success'')]]"
  by (simp add: status_success_def private_module_return_def)

lemma unbound_wrappers_turn:
  assumes "withDocumentsAI g = None" and "withoutDocumentsAI g = None"
    and "strip line \<noteq> []"
    and "json_loads lib (strip line) = Inr (JObj d)"
    and "map_of d ''cmd'' = Some (JStr tag)"
    and "tag = ''ASK_CONVERSATION_DOCUMENTS'' \<or> tag = ''ASK_CONVERSATION_NO_DOCUMENTS''"
  shows "\<exists>msg. loop_iteration lib g (settings_file, line) = (g, module_error msg)"
proof -
  have nonempty: "d \<noteq> []"
    using assms(5) by auto
  have branch: "dispatch lib g (JObj d) cmd = (Some (NameError name), g, [])
      \<Longrightarrow> IC_by_name (JStr tag) = Inr cmd
      \<Longrightarrow> \<exists>msg. loop_iteration lib g (settings_file, line) = (g, module_error msg)"
    for cmd name
  proof (cases "check_credentials (os_environ g) settings_file")
    case (Inl e)
    then show ?thesis
      using assms(3,4) nonempty
      by (auto simp: loop_iteration_def handle_module_input_def raising_def)
  next
    case (Inr res)
    assume d: "dispatch lib g (JObj d) cmd = (Some (NameError name), g, [])"
      and c: "IC_by_name (JStr tag) = Inr cmd"
    obtain ok printed where res: "res = (ok, printed)"
      by (cases res) auto
    from check_credentials_printed [OF Inr [unfolded res]] show ?thesis
    proof
      assume "ok \<and> printed = []"
      then show ?thesis
        using assms(3,4,5) nonempty Inr res d c
        by (auto simp: loop_iteration_def handle_module_input_def and_then_def)
    next
      assume "\<not> ok \<and> (\<exists>text. printed = module_error text)"
      then show ?thesis
        using assms(3,4) nonempty Inr res
        by (auto simp: loop_iteration_def handle_module_input_def)
    qed
  qed
  from assms(6) show ?thesis
  proof
    assume t: "tag = ''ASK_CONVERSATION_DOCUMENTS''"
    show ?thesis
      by (rule branch [of ASK_CONVERSATION_DOCUMENTS "''withDocumentsAI''"])
         (simp_all add: t assms(1) ask_conversation_documents_def raising_def IC_members_def)
  next
    assume t: "tag = ''ASK_CONVERSATION_NO_DOCUMENTS''"
    show ?thesis
      by (rule branch [of ASK_CONVERSATION_NO_DOCUMENTS "''withoutDocumentsAI''"])
         (simp_all add: t assms(2) ask_conversation_no_documents_def raising_def IC_members_def)
  qed
qed

text \<open>
  C9, as the code has it. When the credential check passes and the three wrappers are
  constructed, the start-up prints the single line \<^verbatim>\<open>{"status": "success"}\<close>, which has
  no cost field, and binds the wrappers. When the check reports a missing variable, it
  prints one error line followed by the success line and binds no wrapper. When the
  start-up code raises (loading the \<^verbatim>\<open>.env\<close> file, reading the settings, or a
  constructor), it prints exactly one error line and no success line; a wrapper
  constructed before the exception stays bound. In the loop, while the two conversation
  wrappers are unbound, a line asking either conversation changes nothing and gets
  exactly one error line.
\<close>

theorem startup_lines:
  "(dotenv_file = Inr dotenv \<and> settings_file = Inr (JObj settings)
      \<and> (env ++ dotenv) (credential_env_var (configured_provider settings)) \<noteq> None
      \<and> new_ChatAIWithDocuments lib (env ++ dotenv) settings_file = Inr wd
      \<and> new_ChatAIWithoutDocuments lib (env ++ dotenv) settings_file = Inr w
    \<longrightarrow> startup lib env dotenv_file settings_file =
          (\<lparr>os_environ = env ++ dotenv, withDocumentsAI = Some wd,
             withoutDocumentsAI = Some w, withoutDocumentsSingleQuery = Some w,
             oa_cb = None, sent = []\<rparr>,
           [JObj [(''status'', JStr ''success'')]]))
   \<and> line_total_cost (JObj [(''status'', JStr ''success'')]) = None
   \<and> (dotenv_file = Inr dotenv \<and> settings_file = Inr (JObj settings)
      \<and> (env ++ dotenv) (credential_env_var (configured_provider settings)) = None
    \<longrightarrow> startup lib env dotenv_file settings_file =
          (initial_globals (env ++ dotenv),
           [JObj [(''cmd'', JStr ''SUBMODULE_ERROR''),
                  (''data'', JObj [(''error'',
                     JStr (''Please set '' @ credential_env_var (configured_provider settings)))])],
            JObj [(''status'', JStr ''success'')]]))
   \<and> (dotenv_file = Inl e
    \<longrightarrow> startup lib env dotenv_file settings_file =
          (initial_globals env, module_error (str_exn lib e)))
   \<and> (dotenv_file = Inr dotenv \<and> check_credentials (env ++ dotenv) settings_file = Inl e
    \<longrightarrow> startup lib env dotenv_file settings_file =
          (initial_globals (env ++ dotenv), module_error (str_exn lib e)))
   \<and> (dotenv_file = Inr dotenv \<and> settings_file = Inr (JObj settings)
      \<and> (env ++ dotenv) (credential_env_var (configured_provider settings)) \<noteq> None
      \<and> new_ChatAIWithDocuments lib (env ++ dotenv) settings_file = Inl e
    \<longrightarrow> startup lib env dotenv_file settings_file =
          (initial_globals (env ++ dotenv), module_error (str_exn lib e)))
   \<and> (dotenv_file = Inr dotenv \<and> settings_file = Inr (JObj settings)
      \<and> (env ++ dotenv) (credential_env_var (configured_provider settings)) \<noteq> None
      \<and> new_ChatAIWithDocuments lib (env ++ dotenv) settings_file = Inr wd
      \<and> new_ChatAIWithoutDocuments lib (env ++ dotenv) settings_file = Inl e
    \<longrightarrow> startup lib env dotenv_file settings_file =
          ((initial_globals (env ++ dotenv))\<lparr>withDocumentsAI := Some wd\<rparr>,
           module_error (str_exn lib e)))
   \<and> (withDocumentsAI g = None \<and> withoutDocumentsAI g = None
      \<and> strip line \<noteq> [] \<and> json_loads lib (strip line) = Inr (JObj d)
      \<and> map_of d ''cmd'' = Some (JStr tag)
      \<and> (tag = ''ASK_CONVERSATION_DOCUMENTS'' \<or> tag = ''ASK_CONVERSATION_NO_DOCUMENTS'')
    \<longrightarrow> (\<exists>msg. loop_iteration lib g (turn_settings, line) = (g, module_error msg)))"
proof (intro conjI impI)
  show "line_total_cost (JObj [(''status'', JStr ''success'')]) = None"
    by simp
next
  assume "withDocumentsAI g = None \<and> withoutDocumentsAI g = None
      \<and> strip line \<noteq> [] \<and> json_loads lib (strip line) = Inr (JObj d)
      \<and> map_of d ''cmd'' = Some (JStr tag)
      \<and> (tag = ''ASK_CONVERSATION_DOCUMENTS'' \<or> tag = ''ASK_CONVERSATION_NO_DOCUMENTS'')"
  then show "\<exists>msg. loop_iteration lib g (turn_settings, line) = (g, module_error msg)"
    by (blast intro: unbound_wrappers_turn)
qed (auto simp: startup_def check_credentials_dict initial_globals_def status_success_line
      module_error_line Let_def)


lemma example_new_wrapper:
  "new_ChatAIWithoutDocuments example_lib (Map.empty ++ example_env) example_settings =
     Inr example_wrapper"
  by (simp add: new_ChatAIWithoutDocuments_def example_settings_def dict_get_def py_or_def
      example_lib_fields example_wrapper_def)

text \<open>
  A start-up with the key in the \<^verbatim>\<open>.env\<close> file, one without any key, one whose
  \<^verbatim>\<open>.env\<close> file cannot be written, and a question put to the unbound wrappers.
\<close>

theorem startup_lines_witness:
  "startup example_lib Map.empty (Inr example_env) example_settings =
     (\<lparr>os_environ = Map.empty ++ example_env, withDocumentsAI = Some [],
        withoutDocumentsAI = Some example_wrapper,
        withoutDocumentsSingleQuery = Some example_wrapper, oa_cb = None, sent = []\<rparr>,
      [JObj [(''status'', JStr ''success'')]])
   \<and> startup example_lib Map.empty (Inr Map.empty) example_settings =
     (initial_globals (Map.empty ++ Map.empty),
      [JObj [(''cmd'', JStr ''SUBMODULE_ERROR''),
             (''data'', JObj [(''error'', JStr ''Please set OPENAI_API_KEY'')])],
       JObj [(''status'', JStr ''success'')]])
   \<and> startup example_lib Map.empty (Inl (LibraryError ''Permission denied'')) example_settings =
     (initial_globals Map.empty, module_error ''Permission denied'')
   \<and> (\<exists>msg. loop_iteration example_lib (enter_loop (initial_globals Map.empty))
               (example_settings, line_ask_1) =
             (enter_loop (initial_globals Map.empty), module_error msg))"
proof -
  let ?t = "[(''temperature'', JInt 0), (''llmModel'', JStr ''gpt-3.5-turbo'')]"
  have s: "example_settings = Inr (JObj ?t)"
    by (simp add: example_settings_def)
  have p: "configured_provider ?t = OPENAI"
    by (simp add: configured_provider_def)
  have wd: "new_ChatAIWithDocuments example_lib (Map.empty ++ example_env) example_settings = Inr []"
    by (simp add: example_lib_fields)
  have key: "(Map.empty ++ example_env) ''OPENAI_API_KEY'' \<noteq> None"
    by (simp add: example_env_def)
  have nokey: "(Map.empty ++ Map.empty) ''OPENAI_API_KEY'' = (None :: string option)"
    by simp
  have c1: "startup example_lib Map.empty (Inr example_env) example_settings =
     (\<lparr>os_environ = Map.empty ++ example_env, withDocumentsAI = Some [],
        withoutDocumentsAI = Some example_wrapper,
        withoutDocumentsSingleQuery = Some example_wrapper, oa_cb = None, sent = []\<rparr>,
      [JObj [(''status'', JStr ''success'')]])"
    using startup_lines [where dotenv_file = "Inr example_env" and dotenv = example_env
        and settings_file = example_settings and settings = ?t and env = Map.empty
        and lib = example_lib and wd = "[]" and w = example_wrapper]
      s p wd key example_new_wrapper
    by simp
  have c2: "startup example_lib Map.empty (Inr Map.empty) example_settings =
     (initial_globals (Map.empty ++ Map.empty),
      [JObj [(''cmd'', JStr ''SUBMODULE_ERROR''),
             (''data'', JObj [(''error'', JStr ''Please set OPENAI_API_KEY'')])],
       JObj [(''status'', JStr ''success'')]])"
    using startup_lines [where dotenv_file = "Inr Map.empty" and dotenv = Map.empty
        and settings_file = example_settings and settings = ?t and env = Map.empty
        and lib = example_lib]
      s p nokey
    by simp
  have c3: "startup example_lib Map.empty (Inl (LibraryError ''Permission denied''))
       example_settings =
     (initial_globals Map.empty, module_error ''Permission denied'')"
    using startup_lines [where dotenv_file = "Inl (LibraryError ''Permission denied'')"
        and e = "LibraryError ''Permission denied''"
        and settings_file = example_settings and env = Map.empty and lib = example_lib]
    by (simp add: example_lib_fields)
  have c4: "\<exists>msg. loop_iteration example_lib (enter_loop (initial_globals Map.empty))
               (example_settings, line_ask_1) =
             (enter_loop (initial_globals Map.empty), module_error msg)"
    using startup_lines [where g = "enter_loop (initial_globals Map.empty)"
        and line = line_ask_1 and lib = example_lib
        and d = "[(''cmd'', JStr ''ASK_CONVERSATION_NO_DOCUMENTS''),
                  (''query'', JStr ''What is a cell?'')]"
        and tag = "''ASK_CONVERSATION_NO_DOCUMENTS''" and turn_settings = example_settings]
    by (simp add: enter_loop_def initial_globals_def example_lines_strip example_lines_nonempty
        example_lines_loads example_lib_fields)
  from c1 c2 c3 c4 show ?thesis by blast
qed

text \<open>
  C9 as stated fails: without the key the start-up binds no wrapper and prints two
  lines, the error and then the success line, not the error alone.
\<close>

theorem failed_startup_prints_success_counterexample:
  "startup example_lib Map.empty (Inr Map.empty) example_settings =
     (initial_globals Map.empty,
      [JObj [(''cmd'', JStr ''SUBMODULE_ERROR''),
             (''data'', JObj [(''error'', JStr ''Please set OPENAI_API_KEY'')])],
       JObj [(''status'', JStr ''success'')]])
   \<and> withoutDocumentsAI (initial_globals Map.empty :: (json list) globals) = None"
  by (simp add: startup_def check_credentials_def example_settings_def dict_get_def getenv_def
      initial_globals_def module_error_line status_success_line)

end
